theory Spec2Isabelle
  imports Main "HOL-Library.Word"
begin

section \<open>The C++ side of the bridge: pointers, faults, heap objects\<close>

text \<open>
  The bindings in \<^verbatim>\<open>skia-bindings/src/graphite.cpp\<close> and \<^verbatim>\<open>skia-bindings/src/dawn.cpp\<close>
  are \<^verbatim>\<open>extern "C"\<close> functions that forward to Skia. Each of them is embedded below as a
  function that takes the Skia entry point it forwards to as its first argument(s), so
  that what is proved of a binding holds for every behaviour of the library behind it.

  A pointer argument is an \<open>option\<close>: \<open>None\<close> is \<^verbatim>\<open>nullptr\<close>. A pointer to heap-allocated
  opaque objects (Context, Recorder, Recording) or to caller-provided storage carries an
  address; a pointer to a read-only argument structure carries the structure. What C++
  leaves undefined is a value of \<open>fault\<close>: the binding returns \<open>Inl\<close> of it.
\<close>

type_synonym addr = nat

datatype fault =
    NullPointer      \<comment> \<open>\<^verbatim>\<open>*p\<close>, \<^verbatim>\<open>p->m()\<close> or \<^verbatim>\<open>new (p) T\<close> with \<^verbatim>\<open>p == nullptr\<close>\<close>
  | NotConstructed   \<comment> \<open>a member call, assignment or destructor call on raw storage\<close>

definition deref :: "'a option \<Rightarrow> fault + 'a" where
  "deref p = (case p of None \<Rightarrow> Inl NullPointer | Some v \<Rightarrow> Inr v)"

subsection \<open>The heap of \<^verbatim>\<open>new\<close>-allocated objects\<close>

text \<open>
  The heap is the list of all objects ever allocated, indexed by address; a deleted
  object leaves \<open>None\<close> behind, so an address is never handed out twice.
\<close>

type_synonym 'o heap = "'o option list"

definition heap_live :: "'o heap \<Rightarrow> addr \<Rightarrow> bool" where
  "heap_live h a = (a < length h \<and> h ! a \<noteq> None)"

definition heap_get :: "'o heap \<Rightarrow> addr \<Rightarrow> 'o option" where
  "heap_get h a = (if a < length h then h ! a else None)"

definition heap_new :: "'o \<Rightarrow> 'o heap \<Rightarrow> addr \<times> 'o heap" where
  "heap_new v h = (length h, h @ [Some v])"

definition heap_delete :: "addr \<Rightarrow> 'o heap \<Rightarrow> 'o heap" where
  "heap_delete a h = (if a < length h then h[a := None] else h)"

definition heap_put :: "addr \<Rightarrow> 'o \<Rightarrow> 'o heap \<Rightarrow> 'o heap" where
  "heap_put a v h = (if a < length h then h[a := Some v] else h)"

subsection \<open>Owning smart pointers returned by Skia\<close>

text \<open>
  \<^verbatim>\<open>std::unique_ptr<T>\<close> and \<^verbatim>\<open>sk_sp<T>\<close> are an address or null. \<^verbatim>\<open>release()\<close> hands the raw
  pointer out and leaves the smart pointer empty; the destructor of a smart pointer
  that still holds an object deletes it. Every factory binding ends in
  \<^verbatim>\<open>return f(...).release();\<close>: the temporary is released, then destroyed at the end of
  the full expression.
\<close>

type_synonym owning_ptr = "addr option"

definition owning_ptr_release :: "owning_ptr \<Rightarrow> addr option \<times> owning_ptr" where
  "owning_ptr_release u = (u, None)"

definition owning_ptr_destroy :: "owning_ptr \<Rightarrow> 'o heap \<Rightarrow> 'o heap" where
  "owning_ptr_destroy u h = (case u of None \<Rightarrow> h | Some a \<Rightarrow> heap_delete a h)"

definition return_released :: "owning_ptr \<times> 'o heap \<Rightarrow> addr option \<times> 'o heap" where
  "return_released r =
     (case r of (u, h) \<Rightarrow>
        (case owning_ptr_release u of (p, u') \<Rightarrow> (p, owning_ptr_destroy u' h)))"

subsection \<open>Heap objects\<close>

text \<open>
  Modelled from the spec: the classes Context, Recorder and Recording of the wrapped
  library are not part of the bindings' sources. Section 3 of the specification gives
  their attributes: a Context has a pending-work queue and owns the Recordings inserted
  into it; a Recorder has a parent Context and its command buffer state (Idle or
  Recording); a Recording is an immutable batch of commands.
\<close>

type_synonym command = nat

datatype recorder_phase = Idle | Recording

record Context =
  ctx_owned :: "addr list"      \<comment> \<open>Recordings whose ownership was passed to the Context\<close>
  ctx_queue :: "addr list"      \<comment> \<open>inserted, not yet submitted\<close>
  ctx_device_lost :: bool

record Recorder =
  rec_context :: addr
  rec_phase :: recorder_phase
  rec_commands :: "command list"

record Recording =
  rcd_commands :: "command list"

datatype hobj =
    ContextObj Context
  | RecorderObj Recorder
  | RecordingObj Recording
  | DeviceObj                   \<comment> \<open>a default-constructed \<^verbatim>\<open>wgpu::Device\<close>\<close>
  | GrDirectContextObj addr     \<comment> \<open>a direct context on the device at that address\<close>

datatype SyncToCpu = kYes | kNo

text \<open>
  \<^verbatim>\<open>InsertRecordingInfo\<close>: the binding default-constructs it and sets \<^verbatim>\<open>fRecording\<close>; no
  other member is touched.
\<close>

record InsertRecordingInfo =
  fRecording :: "addr option"

definition InsertRecordingInfo_default :: InsertRecordingInfo where
  "InsertRecordingInfo_default = \<lparr>fRecording = None\<rparr>"

section \<open>The factory and submission bindings\<close>



text \<open>
  \<^verbatim>\<open>C_Context_makeRecorder\<close>: the two calls of the source, \<^verbatim>\<open>self->makeRecorder(*options)\<close>
  and \<^verbatim>\<open>self->makeRecorder()\<close>, are the two entry points \<open>makeRecorder\<close> and
  \<open>makeRecorder_default\<close>.
\<close>

definition C_Context_makeRecorder ::
  "(addr \<Rightarrow> 'ro \<Rightarrow> hobj heap \<Rightarrow> owning_ptr \<times> hobj heap) \<Rightarrow>
   (addr \<Rightarrow> hobj heap \<Rightarrow> owning_ptr \<times> hobj heap) \<Rightarrow>
   addr option \<Rightarrow> 'ro option \<Rightarrow> hobj heap \<Rightarrow> fault + (addr option \<times> hobj heap)" where
  "C_Context_makeRecorder makeRecorder makeRecorder_default self options h =
     (if options \<noteq> None then
        (case deref self of Inl e \<Rightarrow> Inl e | Inr ctx \<Rightarrow>
         (case deref options of Inl e \<Rightarrow> Inl e | Inr opts \<Rightarrow>
            Inr (return_released (makeRecorder ctx opts h))))
      else
        (case deref self of Inl e \<Rightarrow> Inl e | Inr ctx \<Rightarrow>
            Inr (return_released (makeRecorder_default ctx h))))"

text \<open>\<^verbatim>\<open>C_Recorder_snap\<close>: \<^verbatim>\<open>return self->snap().release();\<close>\<close>

definition C_Recorder_snap ::
  "(addr \<Rightarrow> hobj heap \<Rightarrow> owning_ptr \<times> hobj heap) \<Rightarrow>
   addr option \<Rightarrow> hobj heap \<Rightarrow> fault + (addr option \<times> hobj heap)" where
  "C_Recorder_snap snap self h =
     (case deref self of Inl e \<Rightarrow> Inl e | Inr r \<Rightarrow> Inr (return_released (snap r h)))"

text \<open>
  \<^verbatim>\<open>C_Context_insertRecording\<close>:
  \<^verbatim>\<open>InsertRecordingInfo info; info.fRecording = recording; return self->insertRecording(info);\<close>
\<close>

definition C_Context_insertRecording ::
  "(addr \<Rightarrow> InsertRecordingInfo \<Rightarrow> hobj heap \<Rightarrow> bool \<times> hobj heap) \<Rightarrow>
   addr option \<Rightarrow> addr option \<Rightarrow> hobj heap \<Rightarrow> fault + (bool \<times> hobj heap)" where
  "C_Context_insertRecording insertRecording self recording h =
     (let info = InsertRecordingInfo_default;
          info = info\<lparr>fRecording := recording\<rparr>
      in case deref self of Inl e \<Rightarrow> Inl e | Inr ctx \<Rightarrow> Inr (insertRecording ctx info h))"

text \<open>
  \<^verbatim>\<open>C_Context_submit\<close> is declared \<^verbatim>\<open>void\<close>; its body is the expression statement
  \<^verbatim>\<open>self->submit(syncToCpu);\<close>, whose value is dropped.
\<close>

definition C_Context_submit ::
  "(addr \<Rightarrow> SyncToCpu \<Rightarrow> hobj heap \<Rightarrow> bool \<times> hobj heap) \<Rightarrow>
   addr option \<Rightarrow> SyncToCpu \<Rightarrow> hobj heap \<Rightarrow> fault + (unit \<times> hobj heap)" where
  "C_Context_submit submit self syncToCpu h =
     (case deref self of Inl e \<Rightarrow> Inl e | Inr ctx \<Rightarrow>
        (case submit ctx syncToCpu h of (result, h') \<Rightarrow> Inr ((), h')))"

text \<open>
  \<^verbatim>\<open>dawn.cpp\<close>: \<^verbatim>\<open>static wgpu::Device *device = nullptr;\<close> is the only global of the
  bindings. \<^verbatim>\<open>C_GrDirectContext_MakeDawn\<close> allocates it when it is null, then forwards
  \<^verbatim>\<open>*device\<close> to one of the two overloads of \<^verbatim>\<open>GrDirectContext::MakeDawn\<close>.
\<close>

record dawn_globals =
  device :: "addr option"

definition dawn_globals_init :: dawn_globals where
  "dawn_globals_init = \<lparr>device = None\<rparr>"

definition C_GrDirectContext_MakeDawn ::
  "(addr \<Rightarrow> 'go \<Rightarrow> hobj heap \<Rightarrow> owning_ptr \<times> hobj heap) \<Rightarrow>
   (addr \<Rightarrow> hobj heap \<Rightarrow> owning_ptr \<times> hobj heap) \<Rightarrow>
   'go option \<Rightarrow> dawn_globals \<Rightarrow> hobj heap \<Rightarrow>
   fault + (addr option \<times> dawn_globals \<times> hobj heap)" where
  "C_GrDirectContext_MakeDawn MakeDawn MakeDawn_default options g h =
     (case (if device g = None
            then (case heap_new DeviceObj h of (d, h') \<Rightarrow> (g\<lparr>device := Some d\<rparr>, h'))
            else (g, h)) of
        (g1, h1) \<Rightarrow>
          if options \<noteq> None then
            (case deref (device g1) of Inl e \<Rightarrow> Inl e | Inr d \<Rightarrow>
             (case deref options of Inl e \<Rightarrow> Inl e | Inr opts \<Rightarrow>
                (case return_released (MakeDawn d opts h1) of (p, h2) \<Rightarrow> Inr (p, g1, h2))))
          else
            (case deref (device g1) of Inl e \<Rightarrow> Inl e | Inr d \<Rightarrow>
                (case return_released (MakeDawn_default d h1) of (p, h2) \<Rightarrow> Inr (p, g1, h2))))"

section \<open>The wrapped library, as far as the specification describes it\<close>

text \<open>
  Modelled from the spec: the constructor of Context is not part of the bindings'
  sources. A new Context owns no Recording, has an empty queue and a working device.
\<close>

definition Context_new :: Context where
  "Context_new = \<lparr>ctx_owned = [], ctx_queue = [], ctx_device_lost = False\<rparr>"


text \<open>
  Modelled from the spec: \<^verbatim>\<open>GrDirectContext::MakeDawn\<close> is not part of the bindings'
  sources. It is a factory like the two above, on the device it is given.
\<close>

definition GrDirectContext_MakeDawn ::
  "(addr \<Rightarrow> bool) \<Rightarrow> addr \<Rightarrow> hobj heap \<Rightarrow> owning_ptr \<times> hobj heap" where
  "GrDirectContext_MakeDawn can_initialize d h =
     (if can_initialize d
      then (case heap_new (GrDirectContextObj d) h of (a, h') \<Rightarrow> (Some a, h'))
      else (None, h))"

text \<open>
  Modelled from the spec: \<^verbatim>\<open>Context::makeRecorder\<close> is not part of the bindings' sources.
  Section 4.3: it returns an owning pointer to a new Recorder bound to that Context; a
  Recorder is Idle when freshly created.
\<close>

definition Context_makeRecorder :: "addr \<Rightarrow> hobj heap \<Rightarrow> owning_ptr \<times> hobj heap" where
  "Context_makeRecorder ctx h =
     (case heap_get h ctx of
        Some (ContextObj c) \<Rightarrow>
          (case heap_new (RecorderObj \<lparr>rec_context = ctx, rec_phase = Idle, rec_commands = []\<rparr>) h of
             (a, h') \<Rightarrow> (Some a, h'))
      | _ \<Rightarrow> (None, h))"

text \<open>
  Modelled from the spec: the rendering API that drives a Recorder is out of the
  bindings' scope. Section 4.3: while recording, commands accumulate in the Recorder.
\<close>

definition Recorder_record :: "command \<Rightarrow> addr \<Rightarrow> hobj heap \<Rightarrow> hobj heap" where
  "Recorder_record c r h =
     (case heap_get h r of
        Some (RecorderObj rc) \<Rightarrow>
          heap_put r (RecorderObj (rc\<lparr>rec_phase := Recording, rec_commands := rec_commands rc @ [c]\<rparr>)) h
      | _ \<Rightarrow> h)"

text \<open>
  Modelled from the spec: a batch of commands recorded one after the other by the
  rendering API, which is out of the bindings' scope.
\<close>

fun Recorder_record_all :: "command list \<Rightarrow> addr \<Rightarrow> hobj heap \<Rightarrow> hobj heap" where
  "Recorder_record_all [] r h = h"
| "Recorder_record_all (c # cs) r h = Recorder_record_all cs r (Recorder_record c r h)"

text \<open>
  Modelled from the spec: \<^verbatim>\<open>Recorder::snap\<close> is not part of the bindings' sources.
  Section 4.3: it returns an owning pointer to a new Recording capturing everything
  recorded since the last snap (or since creation), and resets the Recorder to Idle.
\<close>

definition Recorder_snap :: "addr \<Rightarrow> hobj heap \<Rightarrow> owning_ptr \<times> hobj heap" where
  "Recorder_snap r h =
     (case heap_get h r of
        Some (RecorderObj rc) \<Rightarrow>
          (case heap_new (RecordingObj \<lparr>rcd_commands = rec_commands rc\<rparr>) h of
             (a, h') \<Rightarrow>
               (Some a, heap_put r (RecorderObj (rc\<lparr>rec_phase := Idle, rec_commands := []\<rparr>)) h'))
      | _ \<Rightarrow> (None, h))"

text \<open>
  Modelled from the spec: \<^verbatim>\<open>Context::insertRecording\<close> is not part of the bindings'
  sources. Section 4.4: it takes ownership of the Recording unconditionally and returns
  a success flag. The specification does not say when the flag is false: whether the
  Context accepts the Recording is the parameter \<open>accepts\<close>. A Recording that is accepted
  is queued for submission.
\<close>

definition Context_insertRecording ::
  "(hobj heap \<Rightarrow> addr \<Rightarrow> addr \<Rightarrow> bool) \<Rightarrow>
   addr \<Rightarrow> InsertRecordingInfo \<Rightarrow> hobj heap \<Rightarrow> bool \<times> hobj heap" where
  "Context_insertRecording accepts ctx info h =
     (case fRecording info of
        None \<Rightarrow> (False, h)
      | Some r \<Rightarrow>
          (case heap_get h ctx of
             Some (ContextObj c) \<Rightarrow>
               (let ok = accepts h ctx r;
                    c1 = c\<lparr>ctx_owned := ctx_owned c @ [r]\<rparr>;
                    c2 = (if ok then c1\<lparr>ctx_queue := ctx_queue c1 @ [r]\<rparr> else c1)
                in (ok, heap_put ctx (ContextObj c2) h))
           | _ \<Rightarrow> (False, h)))"

text \<open>
  Modelled from the spec: \<^verbatim>\<open>Context::submit\<close> is not part of the bindings' sources.
  Section 4.4: it flushes all queued, inserted Recordings to the GPU; submission failure
  (e.g. device lost) is reported as a boolean result and is not retried.
\<close>

definition Context_submit :: "addr \<Rightarrow> SyncToCpu \<Rightarrow> hobj heap \<Rightarrow> bool \<times> hobj heap" where
  "Context_submit ctx syncToCpu h =
     (case heap_get h ctx of
        Some (ContextObj c) \<Rightarrow>
          (if ctx_device_lost c then (False, h)
           else (True, heap_put ctx (ContextObj (c\<lparr>ctx_queue := []\<rparr>)) h))
      | _ \<Rightarrow> (False, h))"

section \<open>Sequences of calls\<close>

text \<open>
  A recording session on one Recorder: for each batch of commands, the rendering API
  records the batch, then the caller calls \<^verbatim>\<open>C_Recorder_snap\<close>. The pointers returned by
  the snaps are collected in order.
\<close>

fun snap_each ::
  "command list list \<Rightarrow> addr \<Rightarrow> hobj heap \<Rightarrow> fault + (addr option list \<times> hobj heap)" where
  "snap_each [] r h = Inr ([], h)"
| "snap_each (cs # rest) r h =
     (case C_Recorder_snap Recorder_snap (Some r) (Recorder_record_all cs r h) of
        Inl e \<Rightarrow> Inl e
      | Inr (p, h1) \<Rightarrow>
          (case snap_each rest r h1 of
             Inl e \<Rightarrow> Inl e
           | Inr (ps, h2) \<Rightarrow> Inr (p # ps, h2)))"

text \<open>Successive calls of \<^verbatim>\<open>C_GrDirectContext_MakeDawn\<close>, one per options pointer.\<close>

fun MakeDawn_calls ::
  "(addr \<Rightarrow> 'go \<Rightarrow> hobj heap \<Rightarrow> owning_ptr \<times> hobj heap) \<Rightarrow>
   (addr \<Rightarrow> hobj heap \<Rightarrow> owning_ptr \<times> hobj heap) \<Rightarrow>
   'go option list \<Rightarrow> dawn_globals \<Rightarrow> hobj heap \<Rightarrow>
   fault + (addr option list \<times> dawn_globals \<times> hobj heap)" where
  "MakeDawn_calls MakeDawn MakeDawn_default [] g h = Inr ([], g, h)"
| "MakeDawn_calls MakeDawn MakeDawn_default (options # rest) g h =
     (case C_GrDirectContext_MakeDawn MakeDawn MakeDawn_default options g h of
        Inl e \<Rightarrow> Inl e
      | Inr (p, g1, h1) \<Rightarrow>
          (case MakeDawn_calls MakeDawn MakeDawn_default rest g1 h1 of
             Inl e \<Rightarrow> Inl e
           | Inr (ps, g2, h2) \<Rightarrow> Inr (p # ps, g2, h2)))"

section \<open>Value descriptors in caller-provided storage\<close>

text \<open>
  A native platform object (a \<^verbatim>\<open>CFTypeRef\<close> device, queue or texture, a \<^verbatim>\<open>VkImage\<close>) is
  an opaque identity. What happens to platform reference counts is the log of retain
  and release events; the net change of a handle's count over a log is
  \<open>refcount_delta\<close>.
\<close>

type_synonym native_handle = nat

datatype cf_event = Retain native_handle | Release native_handle

definition refcount_delta :: "cf_event list \<Rightarrow> native_handle \<Rightarrow> int" where
  "refcount_delta log x = int (count_list log (Retain x)) - int (count_list log (Release x))"

text \<open>
  Modelled from the spec: \<^verbatim>\<open>CFRetain\<close> is a platform function, not part of the bindings'
  sources. Section 4.1: retaining a native handle increments its platform reference
  count. It returns its argument; its argument must not be null.
\<close>

definition CFRetain ::
  "native_handle option \<Rightarrow> cf_event list \<Rightarrow> fault + (native_handle option \<times> cf_event list)" where
  "CFRetain cf log =
     (case cf of None \<Rightarrow> Inl NullPointer | Some x \<Rightarrow> Inr (Some x, log @ [Retain x]))"

text \<open>
  Modelled from the spec: \<^verbatim>\<open>sk_cfp\<close>, the holder of a platform reference, is not part of
  the bindings' sources. Section 4.1: destruction releases the native handle held, if
  any.
\<close>

type_synonym sk_cfp = "native_handle option"

definition sk_cfp_destroy :: "sk_cfp \<Rightarrow> cf_event list \<Rightarrow> cf_event list" where
  "sk_cfp_destroy held log = (case held of None \<Rightarrow> log | Some x \<Rightarrow> log @ [Release x])"

text \<open>
  Modelled from the spec: \<^verbatim>\<open>sk_cfp::reset\<close> is not part of the bindings' sources. It
  releases the reference held, if any, and adopts its argument without retaining it
  (section 4.1: the binding retains before storing).
\<close>

definition sk_cfp_reset ::
  "sk_cfp \<Rightarrow> native_handle option \<Rightarrow> cf_event list \<Rightarrow> sk_cfp \<times> cf_event list" where
  "sk_cfp_reset held p log = (p, sk_cfp_destroy held log)"

text \<open>\<^verbatim>\<open>MtlBackendContext\<close>: the two members the binding sets.\<close>

record MtlBackendContext =
  fDevice :: sk_cfp
  fQueue :: sk_cfp

text \<open>
  Modelled from the spec: the default constructor of \<^verbatim>\<open>MtlBackendContext\<close> is not part of
  the bindings' sources. A default-constructed descriptor holds no handle.
\<close>

definition MtlBackendContext_default :: MtlBackendContext where
  "MtlBackendContext_default = \<lparr>fDevice = None, fQueue = None\<rparr>"

text \<open>
  Modelled from the spec: \<^verbatim>\<open>SkISize\<close>, \<^verbatim>\<open>TextureInfo\<close> and \<^verbatim>\<open>BackendTexture\<close> are not part
  of the bindings' sources. Section 3: a TextureInfo is a backend kind, a sample count,
  a mip state and backend-specific flags; a BackendTexture is dimensions, a TextureInfo,
  a native handle whose lifetime may be retained via platform reference counting, and a
  validity flag. Both are valid only after a successful backend-specific factory call
  has populated them; a default-constructed instance is invalid.
\<close>

record SkISize =
  fWidth :: "32 word"
  fHeight :: "32 word"

datatype backend = Metal | Vulkan | Dawn

datatype TextureInfo =
    TextureInfo_Empty
  | TextureInfo_Backend backend "32 word" bool "32 word"

text \<open>
  Modelled from the spec: the default constructor of \<^verbatim>\<open>TextureInfo\<close> is not part of the
  bindings' sources. Section 3: a default-constructed instance is invalid.
\<close>

definition TextureInfo_default :: TextureInfo where
  "TextureInfo_default = TextureInfo_Empty"

text \<open>
  Modelled from the spec: \<^verbatim>\<open>TextureInfo::isValid\<close> is not part of the bindings' sources.
  Section 3: a TextureInfo is valid once a backend has populated it.
\<close>

definition TextureInfo_isValid :: "TextureInfo \<Rightarrow> bool" where
  "TextureInfo_isValid ti = (ti \<noteq> TextureInfo_Empty)"

record BackendTexture =
  fDimensions :: SkISize
  fInfo :: TextureInfo
  fHandle :: "native_handle option"
  fRetained :: bool             \<comment> \<open>the value holds one platform reference on its handle\<close>
  fIsValid :: bool

text \<open>
  Modelled from the spec: the default constructor of \<^verbatim>\<open>BackendTexture\<close> is not part of the
  bindings' sources. Section 3: a default-constructed instance is invalid; it has no
  native handle.
\<close>

definition BackendTexture_default :: BackendTexture where
  "BackendTexture_default =
     \<lparr>fDimensions = \<lparr>fWidth = 0, fHeight = 0\<rparr>, fInfo = TextureInfo_Empty,
      fHandle = None, fRetained = False, fIsValid = False\<rparr>"

text \<open>
  Modelled from the spec: \<^verbatim>\<open>BackendTexture::isValid\<close> is not part of the bindings' sources.
  Section 3: a BackendTexture has a validity flag.
\<close>

definition BackendTexture_isValid :: "BackendTexture \<Rightarrow> bool" where
  "BackendTexture_isValid bt = fIsValid bt"

text \<open>
  Modelled from the spec: \<^verbatim>\<open>BackendTexture::info\<close> is not part of the bindings' sources.
  Section 3: a BackendTexture stores its TextureInfo.
\<close>

definition BackendTexture_info :: "BackendTexture \<Rightarrow> TextureInfo" where
  "BackendTexture_info bt = fInfo bt"

text \<open>
  Modelled from the spec: \<^verbatim>\<open>BackendTexture::dimensions\<close> is not part of the bindings'
  sources. Section 3: a BackendTexture stores its pixel dimensions.
\<close>

definition BackendTexture_dimensions :: "BackendTexture \<Rightarrow> SkISize" where
  "BackendTexture_dimensions bt = fDimensions bt"

text \<open>
  Modelled from the spec: the platform references a BackendTexture value holds, at most
  one. Section 3: the lifetime of its native handle may be retained via platform
  reference counting.
\<close>

definition BackendTexture_held :: "BackendTexture \<Rightarrow> native_handle list" where
  "BackendTexture_held bt =
     (case fHandle bt of None \<Rightarrow> [] | Some x \<Rightarrow> if fRetained bt then [x] else [])"

text \<open>
  Modelled from the spec: the destructor of \<^verbatim>\<open>BackendTexture\<close> is not part of the
  bindings' sources. Section 4.1: destruction releases the resource the value holds.
\<close>

definition BackendTexture_destroy :: "BackendTexture \<Rightarrow> cf_event list \<Rightarrow> cf_event list" where
  "BackendTexture_destroy bt log = log @ map Release (BackendTexture_held bt)"

text \<open>
  Modelled from the spec: the assignment operator of \<^verbatim>\<open>BackendTexture\<close> is not part of the
  bindings' sources. Section 4.1: it releases what the old value held, then the target
  takes over what the new value holds.
\<close>

definition BackendTexture_assign ::
  "BackendTexture \<Rightarrow> BackendTexture \<Rightarrow> cf_event list \<Rightarrow> BackendTexture \<times> cf_event list" where
  "BackendTexture_assign old new log = (new, BackendTexture_destroy old log)"

text \<open>
  Modelled from the spec: the assignment operator of \<^verbatim>\<open>TextureInfo\<close> is not part of the
  bindings' sources. A TextureInfo holds no resource: assignment replaces the value.
\<close>

definition TextureInfo_assign :: "TextureInfo \<Rightarrow> TextureInfo \<Rightarrow> TextureInfo" where
  "TextureInfo_assign old new = new"

subsection \<open>Caller-provided storage\<close>

text \<open>
  The storage the caller passes by pointer, one map per descriptor type: an address
  holds a constructed object, or is raw (\<open>None\<close>). Storage of one descriptor type does
  not overlap storage of another.
\<close>

record memory =
  TextureInfo_at :: "addr \<rightharpoonup> TextureInfo"
  BackendTexture_at :: "addr \<rightharpoonup> BackendTexture"
  MtlBackendContext_at :: "addr \<rightharpoonup> MtlBackendContext"
  cf_log :: "cf_event list"

definition memory_raw :: memory where
  "memory_raw = \<lparr>TextureInfo_at = Map.empty, BackendTexture_at = Map.empty,
                 MtlBackendContext_at = Map.empty, cf_log = []\<rparr>"

text \<open>\<^verbatim>\<open>C_TextureInfo_Construct\<close>: \<^verbatim>\<open>new (ti) TextureInfo();\<close>\<close>

definition C_TextureInfo_Construct :: "memory \<Rightarrow> addr option \<Rightarrow> fault + memory" where
  "C_TextureInfo_Construct m ti =
     (case deref ti of Inl e \<Rightarrow> Inl e | Inr a \<Rightarrow>
        Inr (m\<lparr>TextureInfo_at := (TextureInfo_at m)(a \<mapsto> TextureInfo_default)\<rparr>))"

text \<open>\<^verbatim>\<open>C_TextureInfo_Destruct\<close>: \<^verbatim>\<open>ti->~TextureInfo();\<close>\<close>

definition C_TextureInfo_Destruct :: "memory \<Rightarrow> addr option \<Rightarrow> fault + memory" where
  "C_TextureInfo_Destruct m ti =
     (case deref ti of Inl e \<Rightarrow> Inl e | Inr a \<Rightarrow>
      (case TextureInfo_at m a of None \<Rightarrow> Inl NotConstructed | Some v \<Rightarrow>
         Inr (m\<lparr>TextureInfo_at := (TextureInfo_at m)(a := None)\<rparr>)))"

text \<open>\<^verbatim>\<open>C_BackendTexture_Construct\<close>: \<^verbatim>\<open>new (bt) BackendTexture();\<close>\<close>

definition C_BackendTexture_Construct :: "memory \<Rightarrow> addr option \<Rightarrow> fault + memory" where
  "C_BackendTexture_Construct m bt =
     (case deref bt of Inl e \<Rightarrow> Inl e | Inr a \<Rightarrow>
        Inr (m\<lparr>BackendTexture_at := (BackendTexture_at m)(a \<mapsto> BackendTexture_default)\<rparr>))"

text \<open>\<^verbatim>\<open>C_BackendTexture_Destruct\<close>: \<^verbatim>\<open>bt->~BackendTexture();\<close>\<close>

definition C_BackendTexture_Destruct :: "memory \<Rightarrow> addr option \<Rightarrow> fault + memory" where
  "C_BackendTexture_Destruct m bt =
     (case deref bt of Inl e \<Rightarrow> Inl e | Inr a \<Rightarrow>
      (case BackendTexture_at m a of None \<Rightarrow> Inl NotConstructed | Some v \<Rightarrow>
         Inr (m\<lparr>BackendTexture_at := (BackendTexture_at m)(a := None),
                cf_log := BackendTexture_destroy v (cf_log m)\<rparr>)))"

text \<open>
  \<^verbatim>\<open>C_MtlBackendContext_Construct\<close>:
  \<^verbatim>\<open>new (context) MtlBackendContext();\<close>
  \<^verbatim>\<open>context->fDevice.reset(CFRetain((CFTypeRef)device));\<close>
  \<^verbatim>\<open>context->fQueue.reset(CFRetain((CFTypeRef)queue));\<close>
  The parameters \<^verbatim>\<open>device\<close> and \<^verbatim>\<open>queue\<close> are \<open>device_ref\<close> and \<open>queue_ref\<close> here.
\<close>

definition C_MtlBackendContext_Construct ::
  "memory \<Rightarrow> addr option \<Rightarrow> native_handle option \<Rightarrow> native_handle option \<Rightarrow> fault + memory" where
  "C_MtlBackendContext_Construct m context device_ref queue_ref =
     (case deref context of Inl e \<Rightarrow> Inl e | Inr a \<Rightarrow>
      (let c0 = MtlBackendContext_default in
       (case CFRetain device_ref (cf_log m) of Inl e \<Rightarrow> Inl e | Inr (d, log1) \<Rightarrow>
        (case sk_cfp_reset (fDevice c0) d log1 of (held_d, log2) \<Rightarrow>
         (let c1 = c0\<lparr>fDevice := held_d\<rparr> in
          (case CFRetain queue_ref log2 of Inl e \<Rightarrow> Inl e | Inr (q, log3) \<Rightarrow>
           (case sk_cfp_reset (fQueue c1) q log3 of (held_q, log4) \<Rightarrow>
            (let c2 = c1\<lparr>fQueue := held_q\<rparr> in
               Inr (m\<lparr>MtlBackendContext_at := (MtlBackendContext_at m)(a \<mapsto> c2),
                      cf_log := log4\<rparr>)))))))))"

text \<open>
  \<^verbatim>\<open>C_MtlBackendContext_Destruct\<close>: \<^verbatim>\<open>context->~MtlBackendContext();\<close> destroys the members
  in reverse order of declaration.
\<close>

definition C_MtlBackendContext_Destruct :: "memory \<Rightarrow> addr option \<Rightarrow> fault + memory" where
  "C_MtlBackendContext_Destruct m context =
     (case deref context of Inl e \<Rightarrow> Inl e | Inr a \<Rightarrow>
      (case MtlBackendContext_at m a of None \<Rightarrow> Inl NotConstructed | Some c \<Rightarrow>
         Inr (m\<lparr>MtlBackendContext_at := (MtlBackendContext_at m)(a := None),
                cf_log := sk_cfp_destroy (fDevice c) (sk_cfp_destroy (fQueue c) (cf_log m))\<rparr>)))"

text \<open>\<^verbatim>\<open>C_TextureInfo_isValid\<close>, \<^verbatim>\<open>C_BackendTexture_isValid\<close>: \<^verbatim>\<open>return self->isValid();\<close>\<close>

definition C_TextureInfo_isValid :: "memory \<Rightarrow> addr option \<Rightarrow> fault + (bool \<times> memory)" where
  "C_TextureInfo_isValid m self =
     (case deref self of Inl e \<Rightarrow> Inl e | Inr a \<Rightarrow>
      (case TextureInfo_at m a of None \<Rightarrow> Inl NotConstructed | Some v \<Rightarrow>
         Inr (TextureInfo_isValid v, m)))"

definition C_BackendTexture_isValid :: "memory \<Rightarrow> addr option \<Rightarrow> fault + (bool \<times> memory)" where
  "C_BackendTexture_isValid m self =
     (case deref self of Inl e \<Rightarrow> Inl e | Inr a \<Rightarrow>
      (case BackendTexture_at m a of None \<Rightarrow> Inl NotConstructed | Some v \<Rightarrow>
         Inr (BackendTexture_isValid v, m)))"

text \<open>\<^verbatim>\<open>C_BackendTexture_info\<close>: \<^verbatim>\<open>new (result) TextureInfo(self->info());\<close>\<close>

definition C_BackendTexture_info :: "memory \<Rightarrow> addr option \<Rightarrow> addr option \<Rightarrow> fault + memory" where
  "C_BackendTexture_info m self result =
     (case deref self of Inl e \<Rightarrow> Inl e | Inr a \<Rightarrow>
      (case BackendTexture_at m a of None \<Rightarrow> Inl NotConstructed | Some v \<Rightarrow>
       (case deref result of Inl e \<Rightarrow> Inl e | Inr b \<Rightarrow>
          Inr (m\<lparr>TextureInfo_at := (TextureInfo_at m)(b \<mapsto> BackendTexture_info v)\<rparr>))))"

text \<open>\<^verbatim>\<open>C_BackendTexture_dimensions\<close>: \<^verbatim>\<open>return self->dimensions();\<close>\<close>

definition C_BackendTexture_dimensions :: "memory \<Rightarrow> addr option \<Rightarrow> fault + (SkISize \<times> memory)" where
  "C_BackendTexture_dimensions m self =
     (case deref self of Inl e \<Rightarrow> Inl e | Inr a \<Rightarrow>
      (case BackendTexture_at m a of None \<Rightarrow> Inl NotConstructed | Some v \<Rightarrow>
         Inr (BackendTexture_dimensions v, m)))"

text \<open>
  \<^verbatim>\<open>C_TextureInfo_MakeMetal\<close>: \<^verbatim>\<open>*self = TextureInfos::MakeMetal(texture);\<close> The factory is
  evaluated first, then the assignment operator is called on the target.
\<close>

definition C_TextureInfo_MakeMetal ::
  "(native_handle option \<Rightarrow> TextureInfo) \<Rightarrow>
   memory \<Rightarrow> addr option \<Rightarrow> native_handle option \<Rightarrow> fault + memory" where
  "C_TextureInfo_MakeMetal MakeMetal m self texture =
     (let tmp = MakeMetal texture in
      (case deref self of Inl e \<Rightarrow> Inl e | Inr a \<Rightarrow>
       (case TextureInfo_at m a of None \<Rightarrow> Inl NotConstructed | Some old \<Rightarrow>
          Inr (m\<lparr>TextureInfo_at := (TextureInfo_at m)(a \<mapsto> TextureInfo_assign old tmp)\<rparr>))))"

text \<open>\<^verbatim>\<open>C_BackendTexture_MakeMetal\<close>: \<^verbatim>\<open>*self = BackendTextures::MakeMetal(*dimensions, texture);\<close>\<close>

definition C_BackendTexture_MakeMetal ::
  "(SkISize \<Rightarrow> native_handle option \<Rightarrow> cf_event list \<Rightarrow> BackendTexture \<times> cf_event list) \<Rightarrow>
   memory \<Rightarrow> addr option \<Rightarrow> SkISize option \<Rightarrow> native_handle option \<Rightarrow> fault + memory" where
  "C_BackendTexture_MakeMetal MakeMetal m self dimensions texture =
     (case deref dimensions of Inl e \<Rightarrow> Inl e | Inr dims \<Rightarrow>
      (case MakeMetal dims texture (cf_log m) of (tmp, log1) \<Rightarrow>
       (case deref self of Inl e \<Rightarrow> Inl e | Inr a \<Rightarrow>
        (case BackendTexture_at m a of None \<Rightarrow> Inl NotConstructed | Some old \<Rightarrow>
         (case BackendTexture_assign old tmp log1 of (new, log2) \<Rightarrow>
            Inr (m\<lparr>BackendTexture_at := (BackendTexture_at m)(a \<mapsto> new), cf_log := log2\<rparr>))))))"

text \<open>
  \<^verbatim>\<open>C_BackendTexture_MakeVulkan\<close>:
  \<^verbatim>\<open>*self = BackendTextures::MakeVulkan(*dimensions, *info, layout, queueFamilyIndex, image, *alloc);\<close>
  The parameter \<^verbatim>\<open>image\<close> is \<open>vk_image\<close> here.
\<close>

definition C_BackendTexture_MakeVulkan ::
  "(SkISize \<Rightarrow> 'vti \<Rightarrow> 32 word \<Rightarrow> 32 word \<Rightarrow> native_handle \<Rightarrow> 'va \<Rightarrow> cf_event list
      \<Rightarrow> BackendTexture \<times> cf_event list) \<Rightarrow>
   memory \<Rightarrow> addr option \<Rightarrow> SkISize option \<Rightarrow> 'vti option \<Rightarrow> 32 word \<Rightarrow> 32 word \<Rightarrow>
   native_handle \<Rightarrow> 'va option \<Rightarrow> fault + memory" where
  "C_BackendTexture_MakeVulkan MakeVulkan m self dimensions info layout queueFamilyIndex vk_image alloc =
     (case deref dimensions of Inl e \<Rightarrow> Inl e | Inr dims \<Rightarrow>
      (case deref info of Inl e \<Rightarrow> Inl e | Inr vti \<Rightarrow>
       (case deref alloc of Inl e \<Rightarrow> Inl e | Inr va \<Rightarrow>
        (case MakeVulkan dims vti layout queueFamilyIndex vk_image va (cf_log m) of (tmp, log1) \<Rightarrow>
         (case deref self of Inl e \<Rightarrow> Inl e | Inr a \<Rightarrow>
          (case BackendTexture_at m a of None \<Rightarrow> Inl NotConstructed | Some old \<Rightarrow>
           (case BackendTexture_assign old tmp log1 of (new, log2) \<Rightarrow>
              Inr (m\<lparr>BackendTexture_at := (BackendTexture_at m)(a \<mapsto> new), cf_log := log2\<rparr>))))))))"

subsection \<open>Histories of one descriptor's storage\<close>

text \<open>
  The calls a caller can make on the storage of one TextureInfo, and on the storage of
  one BackendTexture; a history is run call by call and stops at the first fault.
\<close>

datatype ti_call =
    TI_Construct
  | TI_Destruct
  | TI_MakeMetal "native_handle option"

fun TextureInfo_call ::
  "(native_handle option \<Rightarrow> TextureInfo) \<Rightarrow> addr option \<Rightarrow> ti_call \<Rightarrow> memory \<Rightarrow> fault + memory" where
  "TextureInfo_call MakeMetal self TI_Construct m = C_TextureInfo_Construct m self"
| "TextureInfo_call MakeMetal self TI_Destruct m = C_TextureInfo_Destruct m self"
| "TextureInfo_call MakeMetal self (TI_MakeMetal texture) m =
     C_TextureInfo_MakeMetal MakeMetal m self texture"

fun TextureInfo_calls ::
  "(native_handle option \<Rightarrow> TextureInfo) \<Rightarrow> addr option \<Rightarrow> ti_call list \<Rightarrow> memory \<Rightarrow> fault + memory" where
  "TextureInfo_calls MakeMetal self [] m = Inr m"
| "TextureInfo_calls MakeMetal self (c # cs) m =
     (case TextureInfo_call MakeMetal self c m of
        Inl e \<Rightarrow> Inl e
      | Inr m1 \<Rightarrow> TextureInfo_calls MakeMetal self cs m1)"

text \<open>A call that populates a TextureInfo: a factory call whose result is valid.\<close>

fun ti_populates :: "(native_handle option \<Rightarrow> TextureInfo) \<Rightarrow> ti_call \<Rightarrow> bool" where
  "ti_populates MakeMetal (TI_MakeMetal texture) = TextureInfo_isValid (MakeMetal texture)"
| "ti_populates MakeMetal c = False"

datatype ('vti, 'va) bt_call =
    BT_Construct
  | BT_Destruct
  | BT_MakeMetal "SkISize option" "native_handle option"
  | BT_MakeVulkan "SkISize option" "'vti option" "32 word" "32 word" native_handle "'va option"

fun BackendTexture_call ::
  "(SkISize \<Rightarrow> native_handle option \<Rightarrow> cf_event list \<Rightarrow> BackendTexture \<times> cf_event list) \<Rightarrow>
   (SkISize \<Rightarrow> 'vti \<Rightarrow> 32 word \<Rightarrow> 32 word \<Rightarrow> native_handle \<Rightarrow> 'va \<Rightarrow> cf_event list
      \<Rightarrow> BackendTexture \<times> cf_event list) \<Rightarrow>
   addr option \<Rightarrow> ('vti, 'va) bt_call \<Rightarrow> memory \<Rightarrow> fault + memory" where
  "BackendTexture_call MakeMetal MakeVulkan self BT_Construct m = C_BackendTexture_Construct m self"
| "BackendTexture_call MakeMetal MakeVulkan self BT_Destruct m = C_BackendTexture_Destruct m self"
| "BackendTexture_call MakeMetal MakeVulkan self (BT_MakeMetal dimensions texture) m =
     C_BackendTexture_MakeMetal MakeMetal m self dimensions texture"
| "BackendTexture_call MakeMetal MakeVulkan self
       (BT_MakeVulkan dimensions info layout queueFamilyIndex vk_image alloc) m =
     C_BackendTexture_MakeVulkan MakeVulkan m self dimensions info layout queueFamilyIndex
       vk_image alloc"

fun BackendTexture_calls ::
  "(SkISize \<Rightarrow> native_handle option \<Rightarrow> cf_event list \<Rightarrow> BackendTexture \<times> cf_event list) \<Rightarrow>
   (SkISize \<Rightarrow> 'vti \<Rightarrow> 32 word \<Rightarrow> 32 word \<Rightarrow> native_handle \<Rightarrow> 'va \<Rightarrow> cf_event list
      \<Rightarrow> BackendTexture \<times> cf_event list) \<Rightarrow>
   addr option \<Rightarrow> ('vti, 'va) bt_call list \<Rightarrow> memory \<Rightarrow> fault + memory" where
  "BackendTexture_calls MakeMetal MakeVulkan self [] m = Inr m"
| "BackendTexture_calls MakeMetal MakeVulkan self (c # cs) m =
     (case BackendTexture_call MakeMetal MakeVulkan self c m of
        Inl e \<Rightarrow> Inl e
      | Inr m1 \<Rightarrow> BackendTexture_calls MakeMetal MakeVulkan self cs m1)"

text \<open>
  A call that populates a BackendTexture: a factory call whose result, on the platform
  log \<open>log\<close> it ran on, is valid.
\<close>

fun bt_populates ::
  "(SkISize \<Rightarrow> native_handle option \<Rightarrow> cf_event list \<Rightarrow> BackendTexture \<times> cf_event list) \<Rightarrow>
   (SkISize \<Rightarrow> 'vti \<Rightarrow> 32 word \<Rightarrow> 32 word \<Rightarrow> native_handle \<Rightarrow> 'va \<Rightarrow> cf_event list
      \<Rightarrow> BackendTexture \<times> cf_event list) \<Rightarrow>
   cf_event list \<Rightarrow> ('vti, 'va) bt_call \<Rightarrow> bool" where
  "bt_populates MakeMetal MakeVulkan log (BT_MakeMetal (Some dims) texture) =
     BackendTexture_isValid (fst (MakeMetal dims texture log))"
| "bt_populates MakeMetal MakeVulkan log
       (BT_MakeVulkan (Some dims) (Some vti) layout queueFamilyIndex vk_image (Some va)) =
     BackendTexture_isValid (fst (MakeVulkan dims vti layout queueFamilyIndex vk_image va log))"
| "bt_populates MakeMetal MakeVulkan log c = False"

section \<open>Reading a binding's result\<close>

text \<open>What crosses the C boundary as the return value of a binding.\<close>

definition c_return :: "fault + ('r \<times> 's) \<Rightarrow> fault + 'r" where
  "c_return out = (case out of Inl e \<Rightarrow> Inl e | Inr (r, s) \<Rightarrow> Inr r)"



text \<open>
  What the Recordings of a session capture: the commands pending in the Recorder when
  the session starts go into the first Recording, each later batch into its own.
\<close>

fun captured :: "command list \<Rightarrow> command list list \<Rightarrow> command list list" where
  "captured pending [] = []"
| "captured pending (cs # rest) = (pending @ cs) # rest"

section \<open>Concrete states\<close>

definition heap_ok :: "hobj heap" where
  "heap_ok = [Some (ContextObj Context_new)]"

definition heap_lost :: "hobj heap" where
  "heap_lost = [Some (ContextObj (Context_new\<lparr>ctx_device_lost := True\<rparr>))]"

definition Recorder_idle :: Recorder where
  "Recorder_idle = \<lparr>rec_context = 0, rec_phase = Idle, rec_commands = []\<rparr>"

definition heap_recorder :: "hobj heap" where
  "heap_recorder = [Some (ContextObj Context_new), Some (RecorderObj Recorder_idle)]"

definition heap_recording :: "hobj heap" where
  "heap_recording = [Some (ContextObj Context_new), Some (RecorderObj Recorder_idle),
                     Some (RecordingObj \<lparr>rcd_commands = [7]\<rparr>)]"

definition rejects :: "hobj heap \<Rightarrow> addr \<Rightarrow> addr \<Rightarrow> bool" where
  "rejects h ctx r = False"



definition device_supported :: "addr \<Rightarrow> bool" where
  "device_supported d = True"

definition with_options :: "addr \<Rightarrow> unit \<Rightarrow> hobj heap \<Rightarrow> owning_ptr \<times> hobj heap" where
  "with_options ctx opts h = Context_makeRecorder ctx h"

definition MakeDawn_with_options :: "addr \<Rightarrow> unit \<Rightarrow> hobj heap \<Rightarrow> owning_ptr \<times> hobj heap" where
  "MakeDawn_with_options d opts h = GrDirectContext_MakeDawn device_supported d h"

definition TextureInfos_MakeMetal_example :: "native_handle option \<Rightarrow> TextureInfo" where
  "TextureInfos_MakeMetal_example texture =
     (case texture of None \<Rightarrow> TextureInfo_Empty | Some t \<Rightarrow> TextureInfo_Backend Metal 1 False 0)"

definition BackendTextures_MakeMetal_example ::
  "SkISize \<Rightarrow> native_handle option \<Rightarrow> cf_event list \<Rightarrow> BackendTexture \<times> cf_event list" where
  "BackendTextures_MakeMetal_example dims texture log =
     (case texture of
        None \<Rightarrow> (BackendTexture_default, log)
      | Some t \<Rightarrow>
          (\<lparr>fDimensions = dims, fInfo = TextureInfos_MakeMetal_example texture,
            fHandle = Some t, fRetained = True, fIsValid = True\<rparr>, log @ [Retain t]))"

definition BackendTextures_MakeVulkan_example ::
  "SkISize \<Rightarrow> unit \<Rightarrow> 32 word \<Rightarrow> 32 word \<Rightarrow> native_handle \<Rightarrow> unit \<Rightarrow> cf_event list
     \<Rightarrow> BackendTexture \<times> cf_event list" where
  "BackendTextures_MakeVulkan_example dims vti layout queueFamilyIndex vk_image va log =
     (\<lparr>fDimensions = dims, fInfo = TextureInfo_Backend Vulkan 1 False 0,
       fHandle = Some vk_image, fRetained = False, fIsValid = True\<rparr>, log)"

definition size_4x4 :: SkISize where
  "size_4x4 = \<lparr>fWidth = 4, fHeight = 4\<rparr>"

definition texture_7 :: BackendTexture where
  "texture_7 = \<lparr>fDimensions = size_4x4, fInfo = TextureInfo_Backend Metal 1 False 0,
                fHandle = Some 7, fRetained = True, fIsValid = True\<rparr>"

definition texture_9 :: BackendTexture where
  "texture_9 = \<lparr>fDimensions = size_4x4, fInfo = TextureInfo_Backend Metal 1 False 0,
                fHandle = Some 9, fRetained = True, fIsValid = True\<rparr>"

definition memory_texture :: memory where
  "memory_texture = \<lparr>TextureInfo_at = Map.empty, BackendTexture_at = [0 \<mapsto> texture_7],
                     MtlBackendContext_at = Map.empty, cf_log = [Retain 7]\<rparr>"

section \<open>The factory bindings over a library that may throw\<close>










section \<open>Basic facts\<close>

lemma return_released_id: "return_released r = r"
  by (cases r) (simp add: return_released_def owning_ptr_release_def owning_ptr_destroy_def)

lemma deref_Some: "deref (Some v) = Inr v"
  by (simp add: deref_def)

lemma length_heap_put: "length (heap_put a v h) = length h"
  by (simp add: heap_put_def)

lemma heap_get_put:
  "heap_get (heap_put a v h) b = (if a = b \<and> a < length h then Some v else heap_get h b)"
  by (simp add: heap_get_def heap_put_def)

lemma heap_get_snoc:
  "heap_get (h @ [x]) a =
     (if a < length h then heap_get h a else if a = length h then x else None)"
  by (simp add: heap_get_def nth_append)

lemma heap_get_live: "heap_get h a = Some v \<Longrightarrow> a < length h"
  by (simp add: heap_get_def split: if_splits)

section \<open>Submission\<close>

text \<open>
  C1, as the specification states it: \<^verbatim>\<open>Context.submit\<close> reports submission failure as a
  boolean result returned to the caller across the C boundary. The binding does not: on
  a Context whose device is lost the library's submit returns false, on a healthy one
  it returns true, and \<^verbatim>\<open>C_Context_submit\<close> returns the same (nothing) to the caller in
  both cases.
\<close>

theorem C_Context_submit_reports_nothing:
  "fst (Context_submit 0 kYes heap_lost) = False \<and>
   fst (Context_submit 0 kYes heap_ok) = True \<and>
   c_return (C_Context_submit Context_submit (Some 0) kYes heap_lost) =
   c_return (C_Context_submit Context_submit (Some 0) kYes heap_ok)"
  by (simp add: C_Context_submit_def Context_submit_def heap_lost_def heap_ok_def c_return_def
      deref_def heap_get_def heap_put_def Context_new_def)

text \<open>
  C1, amended: for every Context, every sync mode and every behaviour of the library's
  submit, \<^verbatim>\<open>C_Context_submit\<close> forwards the sync mode to the Context's submit and returns
  nothing: the boolean result of the submission is dropped, and the only effect is the
  one the library's submit has.
\<close>

theorem C_Context_submit_discards_result:
  "C_Context_submit submit (Some ctx) syncToCpu h = Inr ((), snd (submit ctx syncToCpu h))"
  by (simp add: C_Context_submit_def deref_def split: prod.splits)

theorem C_Context_submit_discards_result_witness:
  "C_Context_submit Context_submit (Some 0) kNo heap_lost = Inr ((), heap_lost)"
  using C_Context_submit_discards_result [of Context_submit 0 kNo heap_lost]
  by (simp add: Context_submit_def heap_lost_def heap_get_def Context_new_def)

text \<open>
  C2: \<^verbatim>\<open>C_Context_insertRecording\<close> passes the Recording pointer to the library's
  insertion as \<^verbatim>\<open>fRecording\<close> of a fresh \<^verbatim>\<open>InsertRecordingInfo\<close> and returns the library's
  boolean unchanged, for every behaviour of the library. With the insertion the
  specification describes, the Recording is among those the Context owns after the call
  whether the flag is true or false, and no other heap object has changed: the caller
  must treat the pointer as consumed whatever the call returns.
\<close>

theorem C_Context_insertRecording_consumes:
  assumes "heap_get h ctx = Some (ContextObj c)"
  shows "C_Context_insertRecording insertRecording (Some ctx) recording h
           = Inr (insertRecording ctx \<lparr>fRecording = recording\<rparr> h) \<and>
         (\<exists>h'. C_Context_insertRecording (Context_insertRecording accepts) (Some ctx) (Some r) h
                  = Inr (accepts h ctx r, h') \<and>
               (\<exists>c'. heap_get h' ctx = Some (ContextObj c') \<and> ctx_owned c' = ctx_owned c @ [r]) \<and>
               (\<forall>a. a \<noteq> ctx \<longrightarrow> heap_get h' a = heap_get h a))"
proof -
  from assms have lt: "ctx < length h" by (rule heap_get_live)
  have gen: "C_Context_insertRecording insertRecording (Some ctx) recording h
           = Inr (insertRecording ctx \<lparr>fRecording = recording\<rparr> h)"
    by (simp add: C_Context_insertRecording_def InsertRecordingInfo_default_def deref_Some)
  have "C_Context_insertRecording (Context_insertRecording accepts) (Some ctx) (Some r) h
          = Inr (Context_insertRecording accepts ctx \<lparr>fRecording = Some r\<rparr> h)"
    by (simp add: C_Context_insertRecording_def InsertRecordingInfo_default_def deref_Some)
  then show ?thesis
    using assms lt gen
    by (cases "accepts h ctx r")
       (simp_all add: Context_insertRecording_def Let_def heap_get_put)
qed

theorem C_Context_insertRecording_consumes_witness:
  "heap_get heap_recording 0 = Some (ContextObj Context_new) \<and>
   C_Context_insertRecording (Context_insertRecording rejects) (Some 0) (Some 2) heap_recording
     = Inr (False, heap_put 0 (ContextObj (Context_new\<lparr>ctx_owned := [2]\<rparr>)) heap_recording)"
  using C_Context_insertRecording_consumes
          [of heap_recording 0 Context_new "Context_insertRecording rejects" "Some 2" rejects 2]
  by (simp add: heap_recording_def heap_get_def Context_insertRecording_def rejects_def
      Context_new_def Let_def)

section \<open>Factories\<close>

lemma MakeDawn_first_opts:
  "C_GrDirectContext_MakeDawn MD MDd (Some opts) \<lparr>device = None\<rparr> h =
     Inr (fst (MD (length h) opts (h @ [Some DeviceObj])), \<lparr>device = Some (length h)\<rparr>,
          snd (MD (length h) opts (h @ [Some DeviceObj])))"
  by (simp add: C_GrDirectContext_MakeDawn_def heap_new_def deref_def return_released_id
      split: prod.splits)

lemma MakeDawn_first_default:
  "C_GrDirectContext_MakeDawn MD MDd None \<lparr>device = None\<rparr> h =
     Inr (fst (MDd (length h) (h @ [Some DeviceObj])), \<lparr>device = Some (length h)\<rparr>,
          snd (MDd (length h) (h @ [Some DeviceObj])))"
  by (simp add: C_GrDirectContext_MakeDawn_def heap_new_def deref_def return_released_id
      split: prod.splits)

lemma MakeDawn_cached_opts:
  "C_GrDirectContext_MakeDawn MD MDd (Some opts) \<lparr>device = Some d\<rparr> h =
     Inr (fst (MD d opts h), \<lparr>device = Some d\<rparr>, snd (MD d opts h))"
  by (simp add: C_GrDirectContext_MakeDawn_def deref_def return_released_id split: prod.splits)

lemma MakeDawn_cached_default:
  "C_GrDirectContext_MakeDawn MD MDd None \<lparr>device = Some d\<rparr> h =
     Inr (fst (MDd d h), \<lparr>device = Some d\<rparr>, snd (MDd d h))"
  by (simp add: C_GrDirectContext_MakeDawn_def deref_def return_released_id split: prod.splits)

lemma MakeDawn_calls_cached:
  "\<exists>ps h'. MakeDawn_calls MD MDd os \<lparr>device = Some d\<rparr> h = Inr (ps, \<lparr>device = Some d\<rparr>, h')
           \<and> length ps = length os"
proof (induction os arbitrary: h)
  case Nil
  show ?case by simp
next
  case (Cons options os)
  obtain p h1 where step:
    "C_GrDirectContext_MakeDawn MD MDd options \<lparr>device = Some d\<rparr> h
       = Inr (p, \<lparr>device = Some d\<rparr>, h1)"
    by (cases options) (simp_all add: MakeDawn_cached_opts MakeDawn_cached_default)
  from Cons.IH [of h1] obtain ps h' where
    "MakeDawn_calls MD MDd os \<lparr>device = Some d\<rparr> h1 = Inr (ps, \<lparr>device = Some d\<rparr>, h')"
    "length ps = length os" by blast
  with step show ?case by simp
qed

text \<open>
  C3: on a Context \<open>ctx\<close>, \<^verbatim>\<open>C_Context_makeRecorder\<close> with a null options pointer calls the
  Context's \<^verbatim>\<open>makeRecorder()\<close> (the backend defaults), and with a non-null one calls
  \<^verbatim>\<open>makeRecorder(*options)\<close> with those options. In both cases it returns the pointer the
  library's owning pointer held (null when the library failed) and leaves the heap as
  the library left it. Whatever the options pointer is, the call does not dereference a
  null pointer.
\<close>

theorem C_Context_makeRecorder_options:
  "C_Context_makeRecorder makeRecorder makeRecorder_default (Some ctx) None h
     = Inr (makeRecorder_default ctx h) \<and>
   C_Context_makeRecorder makeRecorder makeRecorder_default (Some ctx) (Some opts) h
     = Inr (makeRecorder ctx opts h) \<and>
   C_Context_makeRecorder makeRecorder makeRecorder_default (Some ctx) options h
     \<noteq> Inl NullPointer"
  by (cases options) (simp_all add: C_Context_makeRecorder_def deref_def return_released_id)

theorem C_Context_makeRecorder_options_witness:
  "C_Context_makeRecorder with_options Context_makeRecorder (Some 0) None heap_ok
     = Inr (Some 1, heap_recorder)"
  using C_Context_makeRecorder_options
          [where makeRecorder = with_options and makeRecorder_default = Context_makeRecorder
             and ctx = 0 and h = heap_ok and options = None]
  by (simp add: Context_makeRecorder_def heap_ok_def heap_recorder_def heap_get_def heap_new_def
      Recorder_idle_def)









lemma MakeDawn_calls_same_device:
  "MakeDawn_calls MD MDd os \<lparr>device = Some d\<rparr> h
     = MakeDawn_calls (\<lambda>x. MD d) (\<lambda>x. MDd d) os \<lparr>device = Some d\<rparr> h"
proof (induction os arbitrary: h)
  case Nil
  show ?case by simp
next
  case (Cons options os)
  show ?case
    by (cases options)
       (simp_all add: MakeDawn_cached_opts MakeDawn_cached_default Cons.IH)
qed

lemma MakeDawn_calls_first_device:
  "MakeDawn_calls MD MDd (options # rest) \<lparr>device = None\<rparr> h
     = MakeDawn_calls (\<lambda>x. MD (length h)) (\<lambda>x. MDd (length h)) (options # rest)
         \<lparr>device = None\<rparr> h"
  by (cases options)
     (simp_all add: MakeDawn_first_opts MakeDawn_first_default
        MakeDawn_calls_same_device [of MD MDd rest "length h"])

text \<open>
  C6: \<^verbatim>\<open>C_GrDirectContext_MakeDawn\<close> called while the global \<^verbatim>\<open>device\<close> is null allocates one
  device, at an address that was not in use, stores it in the global and passes it to
  the library; called while the global holds a device, it allocates nothing, passes the
  device held to the library and leaves the global as it was. So in any sequence of
  calls that starts with the global null, every call passes the library the device the
  first call allocated (the sequence runs the same with a library that ignores the
  device it is passed and uses that one), and the global holds that device at the end:
  it is set once, never reassigned and never reset.
\<close>

theorem MakeDawn_device_singleton:
  "C_GrDirectContext_MakeDawn MD MDd (Some opts) \<lparr>device = None\<rparr> h =
     Inr (fst (MD (length h) opts (h @ [Some DeviceObj])), \<lparr>device = Some (length h)\<rparr>,
          snd (MD (length h) opts (h @ [Some DeviceObj]))) \<and>
   C_GrDirectContext_MakeDawn MD MDd None \<lparr>device = None\<rparr> h =
     Inr (fst (MDd (length h) (h @ [Some DeviceObj])), \<lparr>device = Some (length h)\<rparr>,
          snd (MDd (length h) (h @ [Some DeviceObj]))) \<and>
   \<not> heap_live h (length h) \<and>
   C_GrDirectContext_MakeDawn MD MDd (Some opts) \<lparr>device = Some d\<rparr> h =
     Inr (fst (MD d opts h), \<lparr>device = Some d\<rparr>, snd (MD d opts h)) \<and>
   C_GrDirectContext_MakeDawn MD MDd None \<lparr>device = Some d\<rparr> h =
     Inr (fst (MDd d h), \<lparr>device = Some d\<rparr>, snd (MDd d h)) \<and>
   (\<exists>ps h'. MakeDawn_calls MD MDd (options # rest) \<lparr>device = None\<rparr> h
               = Inr (ps, \<lparr>device = Some (length h)\<rparr>, h')
            \<and> length ps = Suc (length rest)) \<and>
   MakeDawn_calls MD MDd (options # rest) \<lparr>device = None\<rparr> h
     = MakeDawn_calls (\<lambda>x. MD (length h)) (\<lambda>x. MDd (length h)) (options # rest)
         \<lparr>device = None\<rparr> h"
proof -
  obtain p h1 where first:
    "C_GrDirectContext_MakeDawn MD MDd options \<lparr>device = None\<rparr> h
       = Inr (p, \<lparr>device = Some (length h)\<rparr>, h1)"
    by (cases options) (simp_all add: MakeDawn_first_opts MakeDawn_first_default)
  obtain ps h' where rest:
    "MakeDawn_calls MD MDd rest \<lparr>device = Some (length h)\<rparr> h1
       = Inr (ps, \<lparr>device = Some (length h)\<rparr>, h')" "length ps = length rest"
    using MakeDawn_calls_cached [of MD MDd rest "length h" h1] by blast
  have seq: "\<exists>ps h'. MakeDawn_calls MD MDd (options # rest) \<lparr>device = None\<rparr> h
               = Inr (ps, \<lparr>device = Some (length h)\<rparr>, h')
            \<and> length ps = Suc (length rest)"
    using first rest by simp
  have fresh: "\<not> heap_live h (length h)"
    by (simp add: heap_live_def)
  note calls = MakeDawn_first_opts [of MD MDd opts h] MakeDawn_first_default [of MD MDd h]
    MakeDawn_cached_opts [of MD MDd opts d h] MakeDawn_cached_default [of MD MDd d h]
  from calls fresh seq MakeDawn_calls_first_device [of MD MDd options rest h]
  show ?thesis by blast
qed

theorem MakeDawn_device_singleton_witness:
  "MakeDawn_calls MakeDawn_with_options (GrDirectContext_MakeDawn device_supported)
     [None, Some (), None] dawn_globals_init []
   = Inr ([Some 1, Some 2, Some 3], \<lparr>device = Some 0\<rparr>,
          [Some DeviceObj, Some (GrDirectContextObj 0), Some (GrDirectContextObj 0),
           Some (GrDirectContextObj 0)])"
  using MakeDawn_device_singleton
          [where MD = MakeDawn_with_options and MDd = "GrDirectContext_MakeDawn device_supported"
             and h = "[]" and options = None and rest = "[Some (), None]"]
  by (simp add: dawn_globals_init_def MakeDawn_with_options_def GrDirectContext_MakeDawn_def
      device_supported_def C_GrDirectContext_MakeDawn_def heap_new_def deref_def
      return_released_id)

section \<open>Recorder sessions\<close>

lemma Recorder_record_all_length: "length (Recorder_record_all cs r h) = length h"
  by (induction cs arbitrary: h) (simp_all add: Recorder_record_def length_heap_put split: option.splits hobj.splits)

lemma Recorder_record_all_other:
  "a \<noteq> r \<Longrightarrow> heap_get (Recorder_record_all cs r h) a = heap_get h a"
  by (induction cs arbitrary: h) (simp_all add: Recorder_record_def heap_get_put split: option.splits hobj.splits)

lemma Recorder_record_all_self:
  "heap_get h r = Some (RecorderObj rc) \<Longrightarrow>
   \<exists>ph. heap_get (Recorder_record_all cs r h) r
      = Some (RecorderObj (rc\<lparr>rec_phase := ph, rec_commands := rec_commands rc @ cs\<rparr>))"
proof (induction cs arbitrary: h rc)
  case Nil
  then show ?case by (auto intro: exI [of _ "rec_phase rc"])
next
  case (Cons c cs)
  from Cons.prems have lt: "r < length h" by (rule heap_get_live)
  let ?rc = "rc\<lparr>rec_phase := Recording, rec_commands := rec_commands rc @ [c]\<rparr>"
  have "heap_get (Recorder_record c r h) r = Some (RecorderObj ?rc)"
    using Cons.prems lt by (simp add: Recorder_record_def heap_get_put)
  from Cons.IH [OF this] show ?case by simp
qed

lemma snap_step:
  assumes "heap_get h r = Some (RecorderObj rc)"
  shows "C_Recorder_snap Recorder_snap (Some r) h =
           Inr (Some (length h),
                heap_put r (RecorderObj (rc\<lparr>rec_phase := Idle, rec_commands := []\<rparr>))
                  (h @ [Some (RecordingObj \<lparr>rcd_commands = rec_commands rc\<rparr>)]))"
  using assms
  by (simp add: C_Recorder_snap_def deref_Some return_released_id Recorder_snap_def heap_new_def)

lemma snap_each_aux:
  "heap_get h r = Some (RecorderObj rc) \<Longrightarrow>
   \<exists>h'. snap_each batches r h = Inr (map Some [length h ..< length h + length batches], h')
      \<and> length h' = length h + length batches
      \<and> (\<forall>i < length batches.
            heap_get h' (length h + i)
              = Some (RecordingObj \<lparr>rcd_commands = captured (rec_commands rc) batches ! i\<rparr>))
      \<and> (\<forall>a < length h. a \<noteq> r \<longrightarrow> heap_get h' a = heap_get h a)
      \<and> heap_get h' r =
          Some (RecorderObj (if batches = [] then rc else rc\<lparr>rec_phase := Idle, rec_commands := []\<rparr>))"
proof (induction batches arbitrary: h rc)
  case Nil
  then show ?case by simp
next
  case (Cons cs rest)
  let ?h0 = "Recorder_record_all cs r h"
  from Cons.prems have lt: "r < length h" by (rule heap_get_live)
  obtain ph where h0r: "heap_get ?h0 r
      = Some (RecorderObj (rc\<lparr>rec_phase := ph, rec_commands := rec_commands rc @ cs\<rparr>))"
    using Recorder_record_all_self [OF Cons.prems] by blast
  have len0: "length ?h0 = length h" by (rule Recorder_record_all_length)
  let ?rc1 = "rc\<lparr>rec_phase := Idle, rec_commands := []\<rparr>"
  let ?h1 = "heap_put r (RecorderObj ?rc1)
               (?h0 @ [Some (RecordingObj \<lparr>rcd_commands = rec_commands rc @ cs\<rparr>)])"
  have step: "C_Recorder_snap Recorder_snap (Some r) ?h0 = Inr (Some (length h), ?h1)"
    using snap_step [OF h0r] len0 by simp
  have len1: "length ?h1 = Suc (length h)" by (simp add: length_heap_put len0)
  have h1r: "heap_get ?h1 r = Some (RecorderObj ?rc1)"
    using lt len0 by (simp add: heap_get_put)
  have h1new: "heap_get ?h1 (length h) = Some (RecordingObj \<lparr>rcd_commands = rec_commands rc @ cs\<rparr>)"
    using lt len0 by (simp add: heap_get_put heap_get_snoc)
  have h1old: "\<And>a. a < length h \<Longrightarrow> a \<noteq> r \<Longrightarrow> heap_get ?h1 a = heap_get h a"
    using len0 by (simp add: heap_get_put heap_get_snoc Recorder_record_all_other)
  from Cons.IH [OF h1r] obtain h' where IH:
    "snap_each rest r ?h1 = Inr (map Some [length ?h1 ..< length ?h1 + length rest], h')"
    "length h' = length ?h1 + length rest"
    "\<forall>i < length rest. heap_get h' (length ?h1 + i)
        = Some (RecordingObj \<lparr>rcd_commands = captured (rec_commands ?rc1) rest ! i\<rparr>)"
    "\<forall>a < length ?h1. a \<noteq> r \<longrightarrow> heap_get h' a = heap_get ?h1 a"
    "heap_get h' r = Some (RecorderObj (if rest = [] then ?rc1 else ?rc1\<lparr>rec_phase := Idle, rec_commands := []\<rparr>))"
    by blast
  have res: "snap_each (cs # rest) r h
      = Inr (map Some [length h ..< length h + length (cs # rest)], h')"
    using step IH(1) len1 by (simp add: upt_rec)
  have cap: "\<And>i. i < length rest \<Longrightarrow> captured [] rest ! i = rest ! i"
    by (cases rest) simp_all
  have recs: "\<forall>i < length (cs # rest). heap_get h' (length h + i)
        = Some (RecordingObj \<lparr>rcd_commands = captured (rec_commands rc) (cs # rest) ! i\<rparr>)"
  proof (intro allI impI)
    fix i assume i: "i < length (cs # rest)"
    show "heap_get h' (length h + i)
        = Some (RecordingObj \<lparr>rcd_commands = captured (rec_commands rc) (cs # rest) ! i\<rparr>)"
    proof (cases i)
      case 0
      have "heap_get h' (length h) = heap_get ?h1 (length h)"
        using IH(4) len1 lt by simp
      with h1new 0 show ?thesis by simp
    next
      case (Suc j)
      with i have j: "j < length rest" by simp
      from IH(3) j have "heap_get h' (length ?h1 + j)
          = Some (RecordingObj \<lparr>rcd_commands = captured (rec_commands ?rc1) rest ! j\<rparr>)" by blast
      with Suc j len1 cap show ?thesis by simp
    qed
  qed
  have old: "\<forall>a < length h. a \<noteq> r \<longrightarrow> heap_get h' a = heap_get h a"
    using IH(4) h1old len1 by simp
  have self: "heap_get h' r = Some (RecorderObj ?rc1)"
    using IH(5) by (cases "rest = []") simp_all
  show ?case
    using res IH(2) len1 recs old self by simp
qed

text \<open>
  C9: on every Recorder, a session of N snaps (the rendering API recording any batch of
  commands before each) returns N pointers, none of them null, pairwise distinct, each
  the address of a Recording that did not exist before the session and that holds
  exactly the commands recorded since the previous snap (since creation for the first
  one); after the session the Recorder is Idle with an empty command buffer. The
  statement holds for every N and every prefix of the session, so the Recorder is Idle
  after each snap and the next snap succeeds.
\<close>

theorem snap_each_distinct_recordings:
  assumes "heap_get h r = Some (RecorderObj rc)"
  shows "\<exists>ps h'. snap_each batches r h = Inr (map Some ps, h')
      \<and> length ps = length batches
      \<and> distinct ps
      \<and> (\<forall>a \<in> set ps. \<not> heap_live h a)
      \<and> (\<forall>i < length batches.
            heap_get h' (ps ! i)
              = Some (RecordingObj \<lparr>rcd_commands = captured (rec_commands rc) batches ! i\<rparr>))
      \<and> (batches \<noteq> [] \<longrightarrow>
            heap_get h' r = Some (RecorderObj (rc\<lparr>rec_phase := Idle, rec_commands := []\<rparr>)))"
proof -
  let ?ps = "[length h ..< length h + length batches]"
  from snap_each_aux [OF assms, of batches] obtain h' where aux:
    "snap_each batches r h = Inr (map Some ?ps, h')"
    "\<forall>i < length batches.
        heap_get h' (length h + i)
          = Some (RecordingObj \<lparr>rcd_commands = captured (rec_commands rc) batches ! i\<rparr>)"
    "heap_get h' r =
        Some (RecorderObj (if batches = [] then rc else rc\<lparr>rec_phase := Idle, rec_commands := []\<rparr>))"
    by blast
  have fresh: "\<forall>a \<in> set ?ps. \<not> heap_live h a"
    by (simp add: heap_live_def)
  have recs: "\<forall>i < length batches.
        heap_get h' (?ps ! i)
          = Some (RecordingObj \<lparr>rcd_commands = captured (rec_commands rc) batches ! i\<rparr>)"
    using aux(2) by simp
  have idle: "batches \<noteq> [] \<longrightarrow>
        heap_get h' r = Some (RecorderObj (rc\<lparr>rec_phase := Idle, rec_commands := []\<rparr>))"
    using aux(3) by simp
  have "snap_each batches r h = Inr (map Some ?ps, h')
      \<and> length ?ps = length batches \<and> distinct ?ps
      \<and> (\<forall>a \<in> set ?ps. \<not> heap_live h a)
      \<and> (\<forall>i < length batches.
            heap_get h' (?ps ! i)
              = Some (RecordingObj \<lparr>rcd_commands = captured (rec_commands rc) batches ! i\<rparr>))
      \<and> (batches \<noteq> [] \<longrightarrow>
            heap_get h' r = Some (RecorderObj (rc\<lparr>rec_phase := Idle, rec_commands := []\<rparr>)))"
    using aux(1) fresh recs idle by simp
  then show ?thesis by blast
qed

theorem snap_each_distinct_recordings_witness:
  "heap_get heap_recorder 1 = Some (RecorderObj Recorder_idle) \<and>
   snap_each [[1, 2], [], [3]] 1 heap_recorder
     = Inr ([Some 2, Some 3, Some 4],
            heap_recorder @ [Some (RecordingObj \<lparr>rcd_commands = [1, 2]\<rparr>),
                             Some (RecordingObj \<lparr>rcd_commands = []\<rparr>),
                             Some (RecordingObj \<lparr>rcd_commands = [3]\<rparr>)])"
  using snap_each_distinct_recordings
          [where h = heap_recorder and r = 1 and rc = Recorder_idle
             and batches = "[[1, 2], [], [3]]"]
  by (simp add: heap_recorder_def Recorder_idle_def heap_get_def heap_put_def heap_new_def
      C_Recorder_snap_def Recorder_snap_def Recorder_record_def deref_def return_released_id)

section \<open>Value descriptors\<close>

lemma TextureInfo_call_cases:
  assumes "TextureInfo_call MakeMetal (Some a) c m = Inr m1"
      and "TextureInfo_at m1 a = Some v" and "TextureInfo_isValid v"
  shows "ti_populates MakeMetal c"
proof (cases c)
  case TI_Construct
  with assms show ?thesis
    by (auto simp: C_TextureInfo_Construct_def deref_Some TextureInfo_default_def
        TextureInfo_isValid_def)
next
  case TI_Destruct
  with assms show ?thesis
    by (auto simp: C_TextureInfo_Destruct_def deref_Some split: option.splits)
next
  case (TI_MakeMetal texture)
  with assms show ?thesis
    by (auto simp: C_TextureInfo_MakeMetal_def deref_Some TextureInfo_assign_def Let_def
        split: option.splits)
qed

lemma TextureInfo_calls_valid:
  "TextureInfo_calls MakeMetal (Some a) cs m = Inr m' \<Longrightarrow>
   TextureInfo_at m' a = Some v \<Longrightarrow> TextureInfo_isValid v \<Longrightarrow>
   (\<exists>c \<in> set cs. ti_populates MakeMetal c) \<or> TextureInfo_at m a = Some v"
proof (induction cs arbitrary: m)
  case Nil
  then show ?case by simp
next
  case (Cons c cs)
  from Cons.prems(1) obtain m1 where
    step: "TextureInfo_call MakeMetal (Some a) c m = Inr m1" and
    rest: "TextureInfo_calls MakeMetal (Some a) cs m1 = Inr m'"
    by (auto split: sum.splits)
  from Cons.IH [OF rest Cons.prems(2,3)]
  show ?case
  proof
    assume "\<exists>c \<in> set cs. ti_populates MakeMetal c"
    then show ?thesis by auto
  next
    assume "TextureInfo_at m1 a = Some v"
    with step Cons.prems(3) have "ti_populates MakeMetal c"
      by (blast intro: TextureInfo_call_cases)
    then show ?thesis by auto
  qed
qed

lemma BackendTexture_call_cases:
  assumes "BackendTexture_call MakeMetal MakeVulkan (Some a) c m = Inr m1"
      and "BackendTexture_at m1 a = Some v" and "BackendTexture_isValid v"
  shows "bt_populates MakeMetal MakeVulkan (cf_log m) c"
proof (cases c)
  case BT_Construct
  with assms show ?thesis
    by (auto simp: C_BackendTexture_Construct_def deref_Some BackendTexture_default_def
        BackendTexture_isValid_def)
next
  case BT_Destruct
  with assms show ?thesis
    by (auto simp: C_BackendTexture_Destruct_def deref_Some split: option.splits)
next
  case (BT_MakeMetal dimensions texture)
  with assms show ?thesis
    by (cases dimensions)
       (auto simp: C_BackendTexture_MakeMetal_def deref_def BackendTexture_assign_def
        split: option.splits prod.splits)
next
  case (BT_MakeVulkan dimensions info layout queueFamilyIndex vk_image alloc)
  with assms show ?thesis
    by (cases dimensions; cases info; cases alloc)
       (auto simp: C_BackendTexture_MakeVulkan_def deref_def BackendTexture_assign_def
        split: option.splits prod.splits)
qed

lemma BackendTexture_calls_valid:
  "BackendTexture_calls MakeMetal MakeVulkan (Some a) cs m = Inr m' \<Longrightarrow>
   BackendTexture_at m' a = Some v \<Longrightarrow> BackendTexture_isValid v \<Longrightarrow>
   (\<exists>c \<in> set cs. \<exists>log. bt_populates MakeMetal MakeVulkan log c) \<or> BackendTexture_at m a = Some v"
proof (induction cs arbitrary: m)
  case Nil
  then show ?case by simp
next
  case (Cons c cs)
  from Cons.prems(1) obtain m1 where
    step: "BackendTexture_call MakeMetal MakeVulkan (Some a) c m = Inr m1" and
    rest: "BackendTexture_calls MakeMetal MakeVulkan (Some a) cs m1 = Inr m'"
    by (auto split: sum.splits)
  from Cons.IH [OF rest Cons.prems(2,3)]
  show ?case
  proof
    assume "\<exists>c \<in> set cs. \<exists>log. bt_populates MakeMetal MakeVulkan log c"
    then show ?thesis by auto
  next
    assume "BackendTexture_at m1 a = Some v"
    with step Cons.prems(3) have "bt_populates MakeMetal MakeVulkan (cf_log m) c"
      by (blast intro: BackendTexture_call_cases)
    then show ?thesis by auto
  qed
qed

lemma C_TextureInfo_isValid_True:
  "C_TextureInfo_isValid m (Some a) = Inr (True, m') \<Longrightarrow>
   \<exists>v. TextureInfo_at m a = Some v \<and> TextureInfo_isValid v"
  by (auto simp: C_TextureInfo_isValid_def deref_Some split: option.splits)

lemma C_BackendTexture_isValid_True:
  "C_BackendTexture_isValid m (Some a) = Inr (True, m') \<Longrightarrow>
   \<exists>v. BackendTexture_at m a = Some v \<and> BackendTexture_isValid v"
  by (auto simp: C_BackendTexture_isValid_def deref_Some split: option.splits)

lemma TextureInfo_history:
  assumes "TextureInfo_calls MakeMetal (Some a) (TI_Construct # cs) m = Inr m'"
      and "C_TextureInfo_isValid m' (Some a) = Inr (True, m')"
  shows "\<exists>c \<in> set cs. ti_populates MakeMetal c"
proof -
  let ?m1 = "m\<lparr>TextureInfo_at := (TextureInfo_at m)(a \<mapsto> TextureInfo_default)\<rparr>"
  from assms(1) have rest: "TextureInfo_calls MakeMetal (Some a) cs ?m1 = Inr m'"
    by (simp add: C_TextureInfo_Construct_def deref_Some)
  from assms(2) obtain v where v: "TextureInfo_at m' a = Some v" "TextureInfo_isValid v"
    using C_TextureInfo_isValid_True by blast
  from TextureInfo_calls_valid [OF rest v]
  show ?thesis
    using v(2) by (auto simp: TextureInfo_default_def TextureInfo_isValid_def)
qed

lemma BackendTexture_history:
  assumes "BackendTexture_calls MakeMetal MakeVulkan (Some a) (BT_Construct # cs) m = Inr m'"
      and "C_BackendTexture_isValid m' (Some a) = Inr (True, m')"
  shows "\<exists>c \<in> set cs. \<exists>log. bt_populates MakeMetal MakeVulkan log c"
proof -
  let ?m1 = "m\<lparr>BackendTexture_at := (BackendTexture_at m)(a \<mapsto> BackendTexture_default)\<rparr>"
  from assms(1) have rest: "BackendTexture_calls MakeMetal MakeVulkan (Some a) cs ?m1 = Inr m'"
    by (simp add: C_BackendTexture_Construct_def deref_Some)
  from assms(2) obtain v where v: "BackendTexture_at m' a = Some v" "BackendTexture_isValid v"
    using C_BackendTexture_isValid_True by blast
  from BackendTexture_calls_valid [OF rest v]
  show ?thesis
    using v(2) by (auto simp: BackendTexture_default_def BackendTexture_isValid_def)
qed

text \<open>
  C4: after \<^verbatim>\<open>C_TextureInfo_Construct\<close> (\<^verbatim>\<open>C_BackendTexture_Construct\<close>) on any storage,
  \<^verbatim>\<open>C_TextureInfo_isValid\<close> (\<^verbatim>\<open>C_BackendTexture_isValid\<close>) returns false. In every history of
  Construct, Destruct and Make calls on that storage that starts with Construct and runs
  without fault, the query returns true at the end only if the history contains a
  backend-specific Make call whose factory produced a valid value. And right after a
  Make call on constructed storage, the query returns the validity of what the factory
  produced: true after a successful one.
\<close>

theorem default_constructed_invalid:
  "(\<exists>m1. C_TextureInfo_Construct m (Some a) = Inr m1 \<and>
         C_TextureInfo_isValid m1 (Some a) = Inr (False, m1)) \<and>
   (\<exists>m1. C_BackendTexture_Construct m (Some a) = Inr m1 \<and>
         C_BackendTexture_isValid m1 (Some a) = Inr (False, m1)) \<and>
   (TextureInfo_calls TMakeMetal (Some a) (TI_Construct # tcs) m = Inr mt \<and>
    C_TextureInfo_isValid mt (Some a) = Inr (True, mt)
      \<longrightarrow> (\<exists>c \<in> set tcs. ti_populates TMakeMetal c)) \<and>
   (BackendTexture_calls BMakeMetal BMakeVulkan (Some a) (BT_Construct # bcs) m = Inr mb \<and>
    C_BackendTexture_isValid mb (Some a) = Inr (True, mb)
      \<longrightarrow> (\<exists>c \<in> set bcs. \<exists>log. bt_populates BMakeMetal BMakeVulkan log c)) \<and>
   (TextureInfo_at m a \<noteq> None \<longrightarrow>
      (\<exists>m2. C_TextureInfo_MakeMetal TMakeMetal m (Some a) texture = Inr m2 \<and>
            C_TextureInfo_isValid m2 (Some a)
              = Inr (TextureInfo_isValid (TMakeMetal texture), m2))) \<and>
   (BackendTexture_at m a \<noteq> None \<longrightarrow>
      (\<exists>m2. C_BackendTexture_MakeMetal BMakeMetal m (Some a) (Some dims) texture = Inr m2 \<and>
            C_BackendTexture_isValid m2 (Some a)
              = Inr (BackendTexture_isValid (fst (BMakeMetal dims texture (cf_log m))), m2)) \<and>
      (\<exists>m2. C_BackendTexture_MakeVulkan BMakeVulkan m (Some a) (Some dims) (Some vti) layout
               queueFamilyIndex vk_image (Some va) = Inr m2 \<and>
            C_BackendTexture_isValid m2 (Some a)
              = Inr (BackendTexture_isValid
                       (fst (BMakeVulkan dims vti layout queueFamilyIndex vk_image va (cf_log m))),
                     m2)))"
proof -
  have c1: "\<exists>m1. C_TextureInfo_Construct m (Some a) = Inr m1 \<and>
         C_TextureInfo_isValid m1 (Some a) = Inr (False, m1)"
    by (simp add: C_TextureInfo_Construct_def C_TextureInfo_isValid_def deref_Some
        TextureInfo_default_def TextureInfo_isValid_def)
  have c2: "\<exists>m1. C_BackendTexture_Construct m (Some a) = Inr m1 \<and>
         C_BackendTexture_isValid m1 (Some a) = Inr (False, m1)"
    by (simp add: C_BackendTexture_Construct_def C_BackendTexture_isValid_def deref_Some
        BackendTexture_default_def BackendTexture_isValid_def)
  have c3: "TextureInfo_calls TMakeMetal (Some a) (TI_Construct # tcs) m = Inr mt \<and>
    C_TextureInfo_isValid mt (Some a) = Inr (True, mt)
      \<longrightarrow> (\<exists>c \<in> set tcs. ti_populates TMakeMetal c)"
    using TextureInfo_history by blast
  have c4: "BackendTexture_calls BMakeMetal BMakeVulkan (Some a) (BT_Construct # bcs) m = Inr mb \<and>
    C_BackendTexture_isValid mb (Some a) = Inr (True, mb)
      \<longrightarrow> (\<exists>c \<in> set bcs. \<exists>log. bt_populates BMakeMetal BMakeVulkan log c)"
    using BackendTexture_history by blast
  have c5: "TextureInfo_at m a \<noteq> None \<longrightarrow>
      (\<exists>m2. C_TextureInfo_MakeMetal TMakeMetal m (Some a) texture = Inr m2 \<and>
            C_TextureInfo_isValid m2 (Some a)
              = Inr (TextureInfo_isValid (TMakeMetal texture), m2))"
    by (auto simp: C_TextureInfo_MakeMetal_def C_TextureInfo_isValid_def deref_Some
        TextureInfo_assign_def Let_def)
  have c6: "BackendTexture_at m a \<noteq> None \<longrightarrow>
      (\<exists>m2. C_BackendTexture_MakeMetal BMakeMetal m (Some a) (Some dims) texture = Inr m2 \<and>
            C_BackendTexture_isValid m2 (Some a)
              = Inr (BackendTexture_isValid (fst (BMakeMetal dims texture (cf_log m))), m2))"
    by (auto simp: C_BackendTexture_MakeMetal_def C_BackendTexture_isValid_def deref_Some
        BackendTexture_assign_def split: prod.splits)
  have c7: "BackendTexture_at m a \<noteq> None \<longrightarrow>
      (\<exists>m2. C_BackendTexture_MakeVulkan BMakeVulkan m (Some a) (Some dims) (Some vti) layout
               queueFamilyIndex vk_image (Some va) = Inr m2 \<and>
            C_BackendTexture_isValid m2 (Some a)
              = Inr (BackendTexture_isValid
                       (fst (BMakeVulkan dims vti layout queueFamilyIndex vk_image va (cf_log m))),
                     m2))"
    by (auto simp: C_BackendTexture_MakeVulkan_def C_BackendTexture_isValid_def deref_Some
        BackendTexture_assign_def split: prod.splits)
  from c1 c2 c3 c4 c5 c6 c7 show ?thesis by blast
qed

theorem default_constructed_invalid_witness:
  "TextureInfo_calls TextureInfos_MakeMetal_example (Some 0)
       [TI_Construct, TI_MakeMetal (Some 5)] memory_raw
     = Inr (memory_raw\<lparr>TextureInfo_at := [0 \<mapsto> TextureInfo_Backend Metal 1 False 0]\<rparr>) \<and>
   C_TextureInfo_isValid
       (memory_raw\<lparr>TextureInfo_at := [0 \<mapsto> TextureInfo_Backend Metal 1 False 0]\<rparr>) (Some 0)
     = Inr (True, memory_raw\<lparr>TextureInfo_at := [0 \<mapsto> TextureInfo_Backend Metal 1 False 0]\<rparr>) \<and>
   (\<exists>c \<in> set [TI_MakeMetal (Some 5)]. ti_populates TextureInfos_MakeMetal_example c) \<and>
   (\<exists>m1. C_TextureInfo_Construct memory_raw (Some 0) = Inr m1 \<and>
         C_TextureInfo_isValid m1 (Some 0) = Inr (False, m1))"
  using default_constructed_invalid
          [where m = memory_raw and a = 0 and TMakeMetal = TextureInfos_MakeMetal_example
             and tcs = "[TI_MakeMetal (Some 5)]"
             and mt = "memory_raw\<lparr>TextureInfo_at := [0 \<mapsto> TextureInfo_Backend Metal 1 False 0]\<rparr>"]
  by (simp add: C_TextureInfo_Construct_def C_TextureInfo_MakeMetal_def C_TextureInfo_isValid_def
      deref_Some TextureInfo_assign_def TextureInfo_default_def TextureInfo_isValid_def
      TextureInfos_MakeMetal_example_def memory_raw_def Let_def)

text \<open>
  C7: \<^verbatim>\<open>C_MtlBackendContext_Construct\<close> on a device and a queue handle retains the device
  once and the queue once, and the descriptor it leaves in the storage holds exactly
  these two handles. \<^verbatim>\<open>C_MtlBackendContext_Destruct\<close> on that descriptor releases the queue
  once and the device once and leaves the storage raw. After Construct followed by
  Destruct, the reference count of every platform handle is what it was before.
\<close>

theorem MtlBackendContext_retain_release:
  "\<exists>m1 m2.
     C_MtlBackendContext_Construct m (Some a) (Some d) (Some q) = Inr m1 \<and>
     MtlBackendContext_at m1 a = Some \<lparr>fDevice = Some d, fQueue = Some q\<rparr> \<and>
     cf_log m1 = cf_log m @ [Retain d, Retain q] \<and>
     C_MtlBackendContext_Destruct m1 (Some a) = Inr m2 \<and>
     MtlBackendContext_at m2 a = None \<and>
     cf_log m2 = cf_log m1 @ [Release q, Release d] \<and>
     (\<forall>x. refcount_delta (cf_log m2) x = refcount_delta (cf_log m) x)"
  by (simp add: C_MtlBackendContext_Construct_def C_MtlBackendContext_Destruct_def deref_Some
      CFRetain_def sk_cfp_reset_def sk_cfp_destroy_def MtlBackendContext_default_def
      refcount_delta_def Let_def)

theorem MtlBackendContext_retain_release_witness:
  "C_MtlBackendContext_Construct memory_raw (Some 0) (Some 3) (Some 4)
     = Inr (memory_raw\<lparr>MtlBackendContext_at := [0 \<mapsto> \<lparr>fDevice = Some 3, fQueue = Some 4\<rparr>],
                       cf_log := [Retain 3, Retain 4]\<rparr>) \<and>
   C_MtlBackendContext_Destruct
       (memory_raw\<lparr>MtlBackendContext_at := [0 \<mapsto> \<lparr>fDevice = Some 3, fQueue = Some 4\<rparr>],
                   cf_log := [Retain 3, Retain 4]\<rparr>) (Some 0)
     = Inr (memory_raw\<lparr>cf_log := [Retain 3, Retain 4, Release 4, Release 3]\<rparr>) \<and>
   refcount_delta [Retain 3, Retain 4, Release 4, Release 3] 3 = 0"
  using MtlBackendContext_retain_release [where m = memory_raw and a = 0 and d = 3 and q = 4]
  by (simp add: C_MtlBackendContext_Construct_def C_MtlBackendContext_Destruct_def deref_Some
      CFRetain_def sk_cfp_reset_def sk_cfp_destroy_def MtlBackendContext_default_def
      refcount_delta_def memory_raw_def Let_def)

text \<open>
  C8: each of \<^verbatim>\<open>C_TextureInfo_MakeMetal\<close>, \<^verbatim>\<open>C_BackendTexture_MakeMetal\<close> and
  \<^verbatim>\<open>C_BackendTexture_MakeVulkan\<close>, called on a target that holds a constructed object,
  replaces that object at the same address by the value the factory produced; the only
  platform event it adds to those of the factory is one release for the reference the
  old value held, if it held one; and the set of addresses that hold an object is the
  same before and after. Called on raw storage, each of them is undefined: the target
  must be constructed first.
\<close>

theorem Make_overwrites_in_place:
  "(TextureInfo_at m a = Some old_ti \<longrightarrow>
      C_TextureInfo_MakeMetal TMakeMetal m (Some a) texture
        = Inr (m\<lparr>TextureInfo_at := (TextureInfo_at m)(a \<mapsto> TMakeMetal texture)\<rparr>) \<and>
      dom ((TextureInfo_at m)(a \<mapsto> TMakeMetal texture)) = dom (TextureInfo_at m)) \<and>
   (TextureInfo_at m a = None \<longrightarrow>
      C_TextureInfo_MakeMetal TMakeMetal m (Some a) texture = Inl NotConstructed) \<and>
   (BackendTexture_at m a = Some old \<longrightarrow>
      C_BackendTexture_MakeMetal BMakeMetal m (Some a) (Some dims) texture
        = Inr (m\<lparr>BackendTexture_at :=
                   (BackendTexture_at m)(a \<mapsto> fst (BMakeMetal dims texture (cf_log m))),
                 cf_log := snd (BMakeMetal dims texture (cf_log m))
                           @ map Release (BackendTexture_held old)\<rparr>) \<and>
      C_BackendTexture_MakeVulkan BMakeVulkan m (Some a) (Some dims) (Some vti) layout
          queueFamilyIndex vk_image (Some va)
        = Inr (m\<lparr>BackendTexture_at :=
                   (BackendTexture_at m)
                     (a \<mapsto> fst (BMakeVulkan dims vti layout queueFamilyIndex vk_image va (cf_log m))),
                 cf_log := snd (BMakeVulkan dims vti layout queueFamilyIndex vk_image va (cf_log m))
                           @ map Release (BackendTexture_held old)\<rparr>) \<and>
      length (BackendTexture_held old) \<le> 1 \<and>
      (\<forall>new. dom ((BackendTexture_at m)(a \<mapsto> new)) = dom (BackendTexture_at m))) \<and>
   (BackendTexture_at m a = None \<longrightarrow>
      C_BackendTexture_MakeMetal BMakeMetal m (Some a) (Some dims) texture = Inl NotConstructed \<and>
      C_BackendTexture_MakeVulkan BMakeVulkan m (Some a) (Some dims) (Some vti) layout
          queueFamilyIndex vk_image (Some va) = Inl NotConstructed)"
proof -
  have t1: "TextureInfo_at m a = Some old_ti \<longrightarrow>
      C_TextureInfo_MakeMetal TMakeMetal m (Some a) texture
        = Inr (m\<lparr>TextureInfo_at := (TextureInfo_at m)(a \<mapsto> TMakeMetal texture)\<rparr>) \<and>
      dom ((TextureInfo_at m)(a \<mapsto> TMakeMetal texture)) = dom (TextureInfo_at m)"
    by (auto simp: C_TextureInfo_MakeMetal_def deref_Some TextureInfo_assign_def Let_def)
  have t2: "TextureInfo_at m a = None \<longrightarrow>
      C_TextureInfo_MakeMetal TMakeMetal m (Some a) texture = Inl NotConstructed"
    by (simp add: C_TextureInfo_MakeMetal_def deref_Some Let_def)
  have b1: "BackendTexture_at m a = Some old \<longrightarrow>
      C_BackendTexture_MakeMetal BMakeMetal m (Some a) (Some dims) texture
        = Inr (m\<lparr>BackendTexture_at :=
                   (BackendTexture_at m)(a \<mapsto> fst (BMakeMetal dims texture (cf_log m))),
                 cf_log := snd (BMakeMetal dims texture (cf_log m))
                           @ map Release (BackendTexture_held old)\<rparr>)"
    by (simp add: C_BackendTexture_MakeMetal_def deref_Some BackendTexture_assign_def
        BackendTexture_destroy_def split: prod.splits)
  have b2: "BackendTexture_at m a = Some old \<longrightarrow>
      C_BackendTexture_MakeVulkan BMakeVulkan m (Some a) (Some dims) (Some vti) layout
          queueFamilyIndex vk_image (Some va)
        = Inr (m\<lparr>BackendTexture_at :=
                   (BackendTexture_at m)
                     (a \<mapsto> fst (BMakeVulkan dims vti layout queueFamilyIndex vk_image va (cf_log m))),
                 cf_log := snd (BMakeVulkan dims vti layout queueFamilyIndex vk_image va (cf_log m))
                           @ map Release (BackendTexture_held old)\<rparr>)"
    by (simp add: C_BackendTexture_MakeVulkan_def deref_Some BackendTexture_assign_def
        BackendTexture_destroy_def split: prod.splits)
  have b3: "length (BackendTexture_held old) \<le> 1"
    by (simp add: BackendTexture_held_def split: option.splits)
  have b4: "BackendTexture_at m a = Some old \<longrightarrow>
      (\<forall>new. dom ((BackendTexture_at m)(a \<mapsto> new)) = dom (BackendTexture_at m))"
    by auto
  have b5: "BackendTexture_at m a = None \<longrightarrow>
      C_BackendTexture_MakeMetal BMakeMetal m (Some a) (Some dims) texture = Inl NotConstructed \<and>
      C_BackendTexture_MakeVulkan BMakeVulkan m (Some a) (Some dims) (Some vti) layout
          queueFamilyIndex vk_image (Some va) = Inl NotConstructed"
    by (simp add: C_BackendTexture_MakeMetal_def C_BackendTexture_MakeVulkan_def deref_Some
        split: prod.splits)
  from t1 t2 b1 b2 b3 b4 b5 show ?thesis by blast
qed

theorem Make_overwrites_in_place_witness:
  "BackendTexture_at memory_texture 0 = Some texture_7 \<and>
   C_BackendTexture_MakeMetal BackendTextures_MakeMetal_example memory_texture (Some 0)
       (Some size_4x4) (Some 9)
     = Inr (memory_texture\<lparr>BackendTexture_at := [0 \<mapsto> texture_9],
                           cf_log := [Retain 7, Retain 9, Release 7]\<rparr>) \<and>
   TextureInfo_at memory_texture 0 = None \<and>
   C_TextureInfo_MakeMetal TextureInfos_MakeMetal_example memory_texture (Some 0) (Some 9)
     = Inl NotConstructed"
  using Make_overwrites_in_place
          [where m = memory_texture and a = 0 and old = texture_7
             and BMakeMetal = BackendTextures_MakeMetal_example and dims = size_4x4
             and texture = "Some 9" and TMakeMetal = TextureInfos_MakeMetal_example
             and BMakeVulkan = BackendTextures_MakeVulkan_example and vti = "()" and va = "()"
             and layout = 0 and queueFamilyIndex = 0 and vk_image = 11]
  by (simp add: memory_texture_def texture_7_def texture_9_def
      BackendTextures_MakeMetal_example_def TextureInfos_MakeMetal_example_def
      BackendTexture_held_def)

text \<open>
  C10: for every constructed BackendTexture (valid or not), \<^verbatim>\<open>C_BackendTexture_info\<close>
  constructs in the result storage a TextureInfo equal to the descriptor the
  BackendTexture stores, whatever the result storage held before, and changes nothing
  else: every BackendTexture, every other TextureInfo and the platform reference counts
  are as before. \<^verbatim>\<open>C_BackendTexture_dimensions\<close> returns the stored dimensions and changes
  nothing at all.
\<close>

theorem BackendTexture_accessors_frame:
  assumes "BackendTexture_at m a = Some bt"
  shows "\<exists>m'. C_BackendTexture_info m (Some a) (Some b) = Inr m' \<and>
              TextureInfo_at m' b = Some (fInfo bt) \<and>
              (\<forall>x. x \<noteq> b \<longrightarrow> TextureInfo_at m' x = TextureInfo_at m x) \<and>
              BackendTexture_at m' = BackendTexture_at m \<and>
              MtlBackendContext_at m' = MtlBackendContext_at m \<and>
              cf_log m' = cf_log m \<and>
              C_BackendTexture_dimensions m (Some a) = Inr (fDimensions bt, m)"
  using assms
  by (simp add: C_BackendTexture_info_def C_BackendTexture_dimensions_def deref_Some
      BackendTexture_info_def BackendTexture_dimensions_def)

theorem BackendTexture_accessors_frame_witness:
  "BackendTexture_at memory_texture 0 = Some texture_7 \<and>
   C_BackendTexture_info memory_texture (Some 0) (Some 5)
     = Inr (memory_texture\<lparr>TextureInfo_at := [5 \<mapsto> TextureInfo_Backend Metal 1 False 0]\<rparr>) \<and>
   C_BackendTexture_dimensions memory_texture (Some 0) = Inr (size_4x4, memory_texture)"
  using BackendTexture_accessors_frame
          [where m = memory_texture and a = 0 and bt = texture_7 and b = 5]
  by (simp add: memory_texture_def texture_7_def C_BackendTexture_info_def
      C_BackendTexture_dimensions_def deref_Some BackendTexture_info_def
      BackendTexture_dimensions_def)

end
